theory Spec2Isabelle
  imports Complex_Main "HOL-Library.Sublist" "HOL-Library.AList"
begin

section \<open>Text: character classes and string helpers\<close>

text \<open>
  Python \<open>str\<close> values are modelled as \<open>string\<close>, one \<open>char\<close> per code point, for text
  with code points up to \<open>U+00FF\<close>. The classes of the \<open>re\<close> module, which are the Unicode
  ones for a \<open>str\<close> pattern, are there: \<open>\d\<close> the ten digits; \<open>\w\<close> the ASCII letters and
  digits and the underscore, the letters and numerals \<open>U+00AA\<close>, \<open>U+00B2\<close>, \<open>U+00B3\<close>,
  \<open>U+00B5\<close>, \<open>U+00B9\<close>, \<open>U+00BA\<close>, \<open>U+00BC\<close> to \<open>U+00BE\<close>, and every code point from
  \<open>U+00C0\<close> on but the two signs \<open>U+00D7\<close> and \<open>U+00F7\<close>.
\<close>

definition is_digit :: "char \<Rightarrow> bool" where
  "is_digit c \<longleftrightarrow> c \<in> set ''0123456789''"

definition is_word :: "char \<Rightarrow> bool" where
  "is_word c \<longleftrightarrow>
     c \<in> set ''0123456789abcdefghijklmnopqrstuvwxyzABCDEFGHIJKLMNOPQRSTUVWXYZ_'' \<or>
     c \<in> set [CHR 0xAA, CHR 0xB2, CHR 0xB3, CHR 0xB5, CHR 0xB9, CHR 0xBA,
                CHR 0xBC, CHR 0xBD, CHR 0xBE] \<or>
     ((0xC0 :: nat) \<le> of_char c \<and> c \<noteq> CHR 0xD7 \<and> c \<noteq> CHR 0xF7)"

text \<open>
  \<open>str.strip()\<close> and \<open>str.split()\<close> take as whitespace: tab, line feed, vertical tab, form
  feed, carriage return, the four separators \<open>0x1C\<close> to \<open>0x1F\<close>, the space, the next-line
  control \<open>U+0085\<close> and the no-break space \<open>U+00A0\<close>.
\<close>

definition is_space :: "char \<Rightarrow> bool" where
  "is_space c \<longleftrightarrow>
     c \<in> set [CHR 0x09, CHR 0x0A, CHR 0x0B, CHR 0x0C, CHR 0x0D,
                CHR 0x1C, CHR 0x1D, CHR 0x1E, CHR 0x1F, CHR 0x20, CHR 0x85, CHR 0xA0]"

definition strip :: "string \<Rightarrow> string" where
  "strip s = rev (dropWhile is_space (rev (dropWhile is_space s)))"

text \<open>\<open>s.find(c)\<close> and \<open>s.rfind(c)\<close> for a single character: the position, or \<open>-1\<close>.\<close>

definition str_find :: "string \<Rightarrow> char \<Rightarrow> int" where
  "str_find s c = (if c \<in> set s then int (length (takeWhile (\<lambda>x. x \<noteq> c) s)) else - 1)"

definition str_rfind :: "string \<Rightarrow> char \<Rightarrow> int" where
  "str_rfind s c =
     (if c \<in> set s then int (length s) - 1 - int (length (takeWhile (\<lambda>x. x \<noteq> c) (rev s)))
      else - 1)"

text \<open>
  A slice bound of Python: a negative bound counts from the end, and every bound is
  clipped to the length. \<open>slice s i j\<close> is \<open>s[i:j]\<close>, \<open>slice_from s i\<close> is \<open>s[i:]\<close>.
\<close>

definition slice_bound :: "nat \<Rightarrow> int \<Rightarrow> nat" where
  "slice_bound n i = (if i < 0 then nat (int n + i) else min n (nat i))"

definition slice :: "'a list \<Rightarrow> int \<Rightarrow> int \<Rightarrow> 'a list" where
  "slice s i j = drop (slice_bound (length s) i) (take (slice_bound (length s) j) s)"

definition slice_from :: "'a list \<Rightarrow> int \<Rightarrow> 'a list" where
  "slice_from s i = drop (slice_bound (length s) i) s"

text \<open>\<open>sep.join(parts)\<close>.\<close>

fun join :: "string \<Rightarrow> string list \<Rightarrow> string" where
  "join sep [] = []"
| "join sep [x] = x"
| "join sep (x # y # ys) = x @ sep @ join sep (y # ys)"

text \<open>
  \<open>s.split()\<close>: the maximal runs of characters that are not whitespace. \<open>cur\<close> holds the
  run being read, last character first.
\<close>

fun split_from :: "string \<Rightarrow> string \<Rightarrow> string list" where
  "split_from cur [] = (if cur = [] then [] else [rev cur])"
| "split_from cur (c # cs) =
     (if is_space c then (if cur = [] then split_from [] cs else rev cur # split_from [] cs)
      else split_from (c # cur) cs)"

definition str_split :: "string \<Rightarrow> string list" where
  "str_split s = split_from [] s"

text \<open>\<open>s.capitalize()\<close> on ASCII: the first character in upper case, the others in lower case.\<close>

definition upper_char :: "char \<Rightarrow> char" where
  "upper_char c =
     (case map_of (zip ''abcdefghijklmnopqrstuvwxyz'' ''ABCDEFGHIJKLMNOPQRSTUVWXYZ'') c of
        Some u \<Rightarrow> u | None \<Rightarrow> c)"

definition lower_char :: "char \<Rightarrow> char" where
  "lower_char c =
     (case map_of (zip ''ABCDEFGHIJKLMNOPQRSTUVWXYZ'' ''abcdefghijklmnopqrstuvwxyz'') c of
        Some l \<Rightarrow> l | None \<Rightarrow> c)"

fun capitalize :: "string \<Rightarrow> string" where
  "capitalize [] = []"
| "capitalize (c # cs) = upper_char c # map lower_char cs"

section \<open>aadhaar\_mask.py\<close>

text \<open>
  \<^verbatim>\<open>re.sub(r"\b\d{12}\b", lambda m: f"XXXX-XXXX-{m.group()[8:]}", text)\<close>

  \<open>at_match s\<close>: the pattern \<open>\d{12}\b\<close> matches at the head of \<open>s\<close>: twelve digits,
  followed by the end of the text or by a character that is not a word character (the
  twelfth digit is a word character, so this is the closing \<open>\b\<close>).
\<close>

definition at_match :: "string \<Rightarrow> bool" where
  "at_match s \<longleftrightarrow>
     12 \<le> length s \<and> list_all is_digit (take 12 s) \<and>
     (case drop 12 s of [] \<Rightarrow> True | c # _ \<Rightarrow> \<not> is_word c)"

text \<open>
  The scan of \<open>re.sub\<close>, left to right over the rest of the text. \<open>pw\<close> says whether the
  character before the current position is a word character (False at the start of the
  text): the opening \<open>\b\<close> before a digit holds exactly when it is not. After a match the
  scan resumes behind the twelve digits, the last of them being the character before.
\<close>

function sub_from :: "bool \<Rightarrow> string \<Rightarrow> string" where
  "sub_from pw [] = []"
| "sub_from pw (c # cs) =
     (if \<not> pw \<and> at_match (c # cs)
      then ''XXXX-XXXX-'' @ drop 8 (take 12 (c # cs)) @ sub_from True (drop 12 (c # cs))
      else c # sub_from (is_word c) cs)"
  by pat_completeness auto
termination
  by (relation "measure (\<lambda>(pw, s). length s)") auto

definition mask_aadhaar :: "string \<Rightarrow> string" where
  "mask_aadhaar text = sub_from False text"

section \<open>history\_db.py\<close>

text \<open>
  The table \<open>chat_history\<close>, its rows in insertion order. The \<open>id\<close> column is a fresh
  random key that no query reads; it is left out. \<open>ts\<close> is the reading of the clock at
  the insertion, an input of \<open>add_turn\<close>.
\<close>

record turn_row =
  row_session_id :: string
  row_role :: string
  row_text :: string
  row_ts :: real

definition add_turn :: "real \<Rightarrow> string \<Rightarrow> string \<Rightarrow> string \<Rightarrow> turn_row list \<Rightarrow> turn_row list" where
  "add_turn now session_id role text table =
     table @ [\<lparr>row_session_id = session_id, row_role = role, row_text = text, row_ts = now\<rparr>]"

text \<open>
  \<^verbatim>\<open>select role, text from chat_history where session_id=? order by ts desc limit ?\<close>

  The rows of the session, latest first, at most \<open>limit\<close> of them. SQL leaves the order of
  rows with equal \<open>ts\<close> open; the sort here keeps them in insertion order.
\<close>

definition get_recent :: "turn_row list \<Rightarrow> string \<Rightarrow> nat \<Rightarrow> (string \<times> string) list" where
  "get_recent table session_id limit =
     map (\<lambda>r. (row_role r, row_text r))
       (take limit (sort_key (\<lambda>r. - row_ts r) (filter (\<lambda>r. row_session_id r = session_id) table)))"

definition clear :: "turn_row list \<Rightarrow> string \<Rightarrow> turn_row list" where
  "clear table session_id = filter (\<lambda>r. row_session_id r \<noteq> session_id) table"

section \<open>Collaborators\<close>

text \<open>
  Values read from JSON, as Python holds them: \<open>None\<close>, \<open>bool\<close>, \<open>int\<close>, \<open>float\<close> (a
  real number here), \<open>str\<close>, \<open>list\<close> and \<open>dict\<close> (its items in insertion order, one per
  key).
\<close>

datatype json =
    JNull
  | JBool bool
  | JInt int
  | JFloat real
  | JString string
  | JArray "json list"
  | JObject "(string \<times> json) list"

text \<open>The truth value of a Python object, as \<open>if x:\<close> reads it.\<close>

fun truthy :: "json \<Rightarrow> bool" where
  "truthy JNull = False"
| "truthy (JBool b) = b"
| "truthy (JInt i) = (i \<noteq> 0)"
| "truthy (JFloat r) = (r \<noteq> 0)"
| "truthy (JString s) = (s \<noteq> [])"
| "truthy (JArray xs) = (xs \<noteq> [])"
| "truthy (JObject kvs) = (kvs \<noteq> [])"

text \<open>\<open>d.get(key, default)\<close>.\<close>

definition dict_get :: "(string \<times> json) list \<Rightarrow> string \<Rightarrow> json \<Rightarrow> json" where
  "dict_get d key dflt = (case map_of d key of Some v \<Rightarrow> v | None \<Rightarrow> dflt)"

text \<open>
  A Python \<open>float\<close>, and an element of a numpy array of floats: a finite value, the number
  it denotes, or one of \<open>inf\<close>, \<open>-inf\<close> and \<open>nan\<close>.
\<close>

datatype pyfloat = Finite real | PosInf | NegInf | NaN

text \<open>\<open>x <= y\<close> on floats: false whenever one of them is \<open>nan\<close>.\<close>

fun float_le :: "pyfloat \<Rightarrow> pyfloat \<Rightarrow> bool" where
  "float_le NaN y = False"
| "float_le x NaN = False"
| "float_le NegInf y = True"
| "float_le x PosInf = True"
| "float_le (Finite a) (Finite b) = (a \<le> b)"
| "float_le x y = False"

datatype py_exception =
    RuntimeError string
  | IndexError
  | ValueError
  | ValidationError
  | InterfaceError

text \<open>
  What the code calls and does not define, and what it reads from the clock:
  \<^item> \<open>encode\<close>: \<open>model.encode\<close> on one text, the embedding vector;
  \<^item> \<open>search\<close>: \<open>index.search\<close>, from the vectors the index holds, the query vector and
    \<open>k\<close> to the labels \<open>indices[0]\<close>;
  \<^item> the floating-point arithmetic of numpy, each result with the rounding numpy gives it:
    \<open>linalg_norm\<close> is \<open>np.linalg.norm\<close> of a row, \<open>true_divide\<close> the division of one element
    by a scalar, \<open>np_dot\<close> is \<open>np.dot\<close> of a row and a column of the same length, \<open>np_mean\<close> is
    \<open>np.mean\<close> of a list that is not empty;
  \<^item> \<open>json_loads\<close>: \<open>json.loads\<close>, \<open>None\<close> when it raises;
  \<^item> \<open>float_of_str\<close>: how the response model reads a string as a \<open>float\<close> field, \<open>None\<close>
    when it refuses;
  \<^item> \<open>invoke_clarification\<close> and \<open>invoke_response\<close>: \<open>kernel.invoke\<close> on the two prompts,
    from the arguments \<open>query\<close>, \<open>conversation_history\<close> and \<open>grounding\<close> to \<open>str(result)\<close>,
    \<open>None\<close> when the call raises;
  \<^item> \<open>now_user\<close> and \<open>now_assistant\<close>: \<open>time.time()\<close> at the two insertions of a chat turn;
  \<^item> \<open>ask_latency_ms\<close> and \<open>chat_latency_ms\<close>: the two measured latencies.
\<close>

record collaborators =
  encode :: "string \<Rightarrow> pyfloat list"
  search :: "pyfloat list list \<Rightarrow> pyfloat list \<Rightarrow> int \<Rightarrow> int list"
  linalg_norm :: "pyfloat list \<Rightarrow> pyfloat"
  true_divide :: "pyfloat \<Rightarrow> pyfloat \<Rightarrow> pyfloat"
  np_dot :: "pyfloat list \<Rightarrow> pyfloat list \<Rightarrow> pyfloat"
  np_mean :: "pyfloat list \<Rightarrow> pyfloat"
  json_loads :: "string \<Rightarrow> json option"
  float_of_str :: "string \<Rightarrow> real option"
  invoke_clarification :: "string \<Rightarrow> string \<Rightarrow> string \<Rightarrow> string option"
  invoke_response :: "string \<Rightarrow> string \<Rightarrow> string \<Rightarrow> string option"
  now_user :: real
  now_assistant :: real
  ask_latency_ms :: int
  chat_latency_ms :: int

section \<open>app.py\<close>

text \<open>
  The globals \<open>index\<close> (here the vectors added to it, \<open>None\<close> before it is built) and
  \<open>metadata_store\<close>, and the table of history\_db.
\<close>

record app_state =
  index :: "pyfloat list list option"
  metadata_store :: "(string \<times> string) list"
  chat_history :: "turn_row list"

definition initial_state :: app_state where
  "initial_state = \<lparr>index = None, metadata_store = [], chat_history = []\<rparr>"

text \<open>\<open>QueryRequest(query=..., k=...)\<close>, with \<open>k: int = Field(default=3, ge=1, le=6)\<close>.\<close>

record query_request =
  qr_query :: string
  qr_k :: int

definition QueryRequest :: "string \<Rightarrow> int \<Rightarrow> py_exception + query_request" where
  "QueryRequest query k =
     (if 1 \<le> k \<and> k \<le> 6 then Inr \<lparr>qr_query = query, qr_k = k\<rparr> else Inl ValidationError)"

text \<open>
  \<open>build_index\<close>, from \<open>docs\<close>, the (filename, chunk) pairs read from the data directory:
  with no document it returns early and leaves the globals as they are.
\<close>

definition build_index :: "collaborators \<Rightarrow> (string \<times> string) list \<Rightarrow> app_state \<Rightarrow> app_state" where
  "build_index env docs st =
     (if docs = [] then st
      else st\<lparr>index := Some (map (encode env) (map snd docs)), metadata_store := docs\<rparr>)"

text \<open>
  Vectors: \<open>np.dot\<close> of a row and a column, which raises when their lengths differ, and
  the division of a row by a scalar, element by element.
\<close>

definition dot :: "collaborators \<Rightarrow> pyfloat list \<Rightarrow> pyfloat list \<Rightarrow> py_exception + pyfloat" where
  "dot env u v = (if length u = length v then Inr (np_dot env u v) else Inl ValueError)"

definition divide_by :: "collaborators \<Rightarrow> pyfloat list \<Rightarrow> pyfloat \<Rightarrow> pyfloat list" where
  "divide_by env v n = map (\<lambda>x. true_divide env x n) v"

text \<open>
  \<open>round(x, 4)\<close>: for a finite \<open>x\<close> the nearest multiple of \<open>1/10000\<close>, the even one of two
  that are equally near (Python returns the float nearest to that multiple, which stands
  for it here); \<open>inf\<close>, \<open>-inf\<close> and \<open>nan\<close> are returned as they are.
\<close>

definition round_half_even :: "real \<Rightarrow> int" where
  "round_half_even y =
     (let f = \<lfloor>y\<rfloor>; d = y - of_int f
      in if d < 1 / 2 then f else if 1 / 2 < d then f + 1 else if even f then f else f + 1)"

fun round4 :: "pyfloat \<Rightarrow> pyfloat" where
  "round4 (Finite x) = Finite (of_int (round_half_even (x * 10000)) / 10000)"
| "round4 x = x"

text \<open>\<open>xs[idx]\<close> as Python reads it: a negative index counts from the end.\<close>

definition getitem :: "'a list \<Rightarrow> int \<Rightarrow> py_exception + 'a" where
  "getitem xs idx =
     (if 0 \<le> idx \<and> idx < int (length xs) then Inr (xs ! nat idx)
      else if idx < 0 \<and> - int (length xs) \<le> idx then Inr (xs ! nat (int (length xs) + idx))
      else Inl IndexError)"

record chunk_result =
  doc :: string
  citation_preview :: string
  full_snippet :: string
  similarity_score :: pyfloat

text \<open>
  The loop of \<open>retrieve\<close> over the labels, with \<open>results\<close> and \<open>similarities\<close> as it leaves
  them.
\<close>

fun retrieve_loop ::
  "collaborators \<Rightarrow> (string \<times> string) list \<Rightarrow> pyfloat list \<Rightarrow> int list
     \<Rightarrow> py_exception + (chunk_result list \<times> pyfloat list)" where
  "retrieve_loop env store query_norm [] = Inr ([], [])"
| "retrieve_loop env store query_norm (idx # rest) =
     (case getitem store idx of
        Inl e \<Rightarrow> Inl e
      | Inr (doc_name, snippet) \<Rightarrow>
          (let first_8_words = join '' '' (take 8 (str_split snippet));
               chunk_embedding = encode env snippet;
               chunk_norm = divide_by env chunk_embedding (linalg_norm env chunk_embedding)
           in case dot env query_norm chunk_norm of
                Inl e \<Rightarrow> Inl e
              | Inr cosine_sim \<Rightarrow>
                  (case retrieve_loop env store query_norm rest of
                     Inl e \<Rightarrow> Inl e
                   | Inr (results, similarities) \<Rightarrow>
                       Inr (\<lparr>doc = doc_name, citation_preview = first_8_words,
                              full_snippet = snippet, similarity_score = round4 cosine_sim\<rparr>
                              # results,
                            cosine_sim # similarities))))"

definition retrieve ::
  "collaborators \<Rightarrow> app_state \<Rightarrow> string \<Rightarrow> int \<Rightarrow> py_exception + (chunk_result list \<times> pyfloat)" where
  "retrieve env st query k =
     (case index st of
        None \<Rightarrow> Inl (RuntimeError ''Index not initialized'')
      | Some vectors \<Rightarrow>
          (let query_vec = encode env query;
               indices = search env vectors query_vec k;
               query_norm = divide_by env query_vec (linalg_norm env query_vec)
           in case retrieve_loop env (metadata_store st) query_norm indices of
                Inl e \<Rightarrow> Inl e
              | Inr (results, similarities) \<Rightarrow>
                  Inr (results,
                       if similarities \<noteq> [] then np_mean env similarities else Finite 0)))"

definition compose_answer :: "chunk_result list \<Rightarrow> string" where
  "compose_answer chunks = join '' '' (map full_snippet chunks)"

section \<open>agent.py\<close>

text \<open>
  An \<open>HTTPException\<close>: its status code and its detail. The details built with an f-string
  around \<open>str(e)\<close> keep the exception \<open>e\<close> itself.
\<close>

datatype http_detail =
    Detail string
  | AskError py_exception
  | AgentError py_exception

datatype http_exception = HTTPException nat http_detail

record chat_request =
  cr_message :: string
  cr_session_id :: string
  cr_k :: int

text \<open>
  \<open>ChatRequest\<close>: \<open>message: str\<close>, \<open>session_id: str = "default"\<close>, \<open>k: int = DEFAULT_K\<close>. The
  model declares no bound on \<open>k\<close>: every integer is accepted.
\<close>

definition ChatRequest :: "string \<Rightarrow> string \<Rightarrow> int \<Rightarrow> py_exception + chat_request" where
  "ChatRequest message session_id k =
     Inr \<lparr>cr_message = message, cr_session_id = session_id, cr_k = k\<rparr>"

record retrieval_info =
  ri_k :: int
  ri_latency_ms :: int
  ri_grounding_score :: "pyfloat option"

record ask_response =
  ar_answer :: string
  ar_citations :: "(string \<times> string) list"
  ar_retrieval :: retrieval_info

record chat_response =
  reply :: string
  citations :: "(string \<times> string) list"
  retrieval :: retrieval_info
  session_id :: string
  used_clarification :: bool
  confidence_score :: "real option"

definition call_ask :: "collaborators \<Rightarrow> app_state \<Rightarrow> string \<Rightarrow> int \<Rightarrow> http_exception + ask_response" where
  "call_ask env st query k =
     (case QueryRequest query k of
        Inl e \<Rightarrow> Inl (HTTPException 502 (AskError e))
      | Inr req \<Rightarrow>
          (case retrieve env st (qr_query req) (qr_k req) of
             Inl e \<Rightarrow> Inl (HTTPException 502 (AskError e))
           | Inr (chunks, grounding_score) \<Rightarrow>
               Inr \<lparr>ar_answer = join '' '' (map full_snippet chunks),
                    ar_citations = map (\<lambda>c. (doc c, citation_preview c)) chunks,
                    ar_retrieval = \<lparr>ri_k = qr_k req, ri_latency_ms = ask_latency_ms env,
                                    ri_grounding_score = Some (round4 grounding_score)\<rparr>\<rparr>))"

text \<open>The dictionary that \<open>check_needs_clarification_with_llm\<close> returns.\<close>

record clarification =
  needs_clarification :: json
  clarification_question :: json
  confidence :: json
  reason :: json

text \<open>The rule-based check of the \<open>except\<close> branch.\<close>

definition fallback_check :: "string \<Rightarrow> clarification" where
  "fallback_check grounding =
     (if grounding = [] \<or> length grounding < 50
      then \<lparr>needs_clarification = JBool True,
            clarification_question = JString
              (''I don't have enough information to answer your question. '' @
               ''Could you provide more details or specify which policy (101 or 201) '' @
               ''you're referring to?''),
            confidence = JFloat (3 / 10),
            reason = JString ''Insufficient grounding information''\<rparr>
      else \<lparr>needs_clarification = JBool False,
            clarification_question = JString [],
            confidence = JFloat (7 / 10),
            reason = JString ''Fallback - sufficient information available''\<rparr>)"

text \<open>
  The text handed to \<open>json.loads\<close>: the stripped response, cut from its first \<open>{\<close> to its
  last \<open>}\<close> when there is a \<open>{\<close> and the last \<open>}\<close> is behind it.
\<close>

definition extract_json :: "string \<Rightarrow> string" where
  "extract_json raw =
     (let response_text = strip raw;
          json_start = str_find response_text CHR ''{'';
          json_end = str_rfind response_text CHR ''}'' + 1
      in if json_start \<noteq> - 1 \<and> json_end > json_start
         then slice response_text json_start json_end
         else response_text)"

text \<open>
  Every exception of the \<open>try\<close> block ends in the rule-based check: a failed call
  (\<open>None\<close> from \<open>invoke_clarification\<close>), a failed \<open>json.loads\<close>, and a parsed value that is
  not a dictionary and so has no \<open>get\<close>.
\<close>

definition check_needs_clarification_with_llm ::
  "collaborators \<Rightarrow> string \<Rightarrow> string \<Rightarrow> string \<Rightarrow> clarification" where
  "check_needs_clarification_with_llm env query grounding conversation_history =
     (case invoke_clarification env query conversation_history
             (if grounding \<noteq> [] then grounding else ''No relevant information found.'') of
        None \<Rightarrow> fallback_check grounding
      | Some result \<Rightarrow>
          (case json_loads env (extract_json result) of
             Some (JObject clarification_data) \<Rightarrow>
               \<lparr>needs_clarification =
                  dict_get clarification_data ''needs_clarification'' (JBool False),
                clarification_question =
                  dict_get clarification_data ''clarification_question'' (JString []),
                confidence = dict_get clarification_data ''confidence'' (JFloat (1 / 2)),
                reason = dict_get clarification_data ''reason'' (JString [])\<rparr>
           | _ \<Rightarrow> fallback_check grounding))"

definition generate_response_with_llm ::
  "collaborators \<Rightarrow> string \<Rightarrow> string \<Rightarrow> string \<Rightarrow> string" where
  "generate_response_with_llm env query grounding conversation_history =
     (case invoke_response env query conversation_history grounding of
        Some result \<Rightarrow> strip result
      | None \<Rightarrow>
          (if grounding \<noteq> [] then slice grounding 0 500
           else ''I apologize, but I'm having trouble generating a response at the moment.''))"

definition build_conversation_context :: "turn_row list \<Rightarrow> string \<Rightarrow> nat \<Rightarrow> string" where
  "build_conversation_context table session max_turns =
     (let history = get_recent table session max_turns
      in if history = [] then ''This is the start of the conversation.\<newline>''
         else ''Previous conversation:\<newline>'' @
              concat (map (\<lambda>(role, message). capitalize role @ '': '' @ message @ ''\<newline>'')
                        (slice_from history (- int max_turns))) @
              ''\<newline>'')"

text \<open>
  \<open>ChatResponse(...)\<close>: \<open>reply: str\<close> takes a string only; \<open>confidence_score:
  Optional[float]\<close> takes \<open>None\<close>, a number, a boolean, and a string that reads as a float.
\<close>

fun confidence_of :: "collaborators \<Rightarrow> json \<Rightarrow> real option option" where
  "confidence_of env JNull = Some None"
| "confidence_of env (JBool b) = Some (Some (if b then 1 else 0))"
| "confidence_of env (JInt i) = Some (Some (of_int i))"
| "confidence_of env (JFloat r) = Some (Some r)"
| "confidence_of env (JString s) = map_option Some (float_of_str env s)"
| "confidence_of env (JArray xs) = None"
| "confidence_of env (JObject kvs) = None"

definition ChatResponse ::
  "collaborators \<Rightarrow> string \<Rightarrow> (string \<times> string) list \<Rightarrow> retrieval_info \<Rightarrow> string \<Rightarrow> bool \<Rightarrow> json
     \<Rightarrow> py_exception + chat_response" where
  "ChatResponse env reply_text cites retr session used_clar conf =
     (case confidence_of env conf of
        None \<Rightarrow> Inl ValidationError
      | Some c \<Rightarrow>
          Inr \<lparr>reply = reply_text, citations = cites, retrieval = retr, session_id = session,
               used_clarification = used_clar, confidence_score = c\<rparr>)"

text \<open>
  The end of a chat turn, from the reply on: the assistant turn is stored, then the
  response is built. The \<open>text\<close> column and the \<open>reply\<close> field hold strings: a reply that
  is a list or a dictionary is refused by the insertion, and any other reply that is not
  a string by the response model (the row that the insertion leaves in that last case,
  holding a value that is not text, is not part of this model of the table). Each ends
  the turn in the generic error 500.
\<close>

definition store_and_respond ::
  "collaborators \<Rightarrow> app_state \<Rightarrow> string \<Rightarrow> json \<Rightarrow> (string \<times> string) list \<Rightarrow> retrieval_info
     \<Rightarrow> bool \<Rightarrow> json \<Rightarrow> app_state \<times> (http_exception + chat_response)" where
  "store_and_respond env st session reply_value cites retr used_clar conf =
     (case reply_value of
        JString reply_text \<Rightarrow>
          (let st' = st\<lparr>chat_history :=
                 add_turn (now_assistant env) session ''assistant'' reply_text (chat_history st)\<rparr>
           in case ChatResponse env reply_text cites retr session used_clar conf of
                Inl e \<Rightarrow> (st', Inl (HTTPException 500 (AgentError e)))
              | Inr response \<Rightarrow> (st', Inr response))
      | JArray xs \<Rightarrow> (st, Inl (HTTPException 500 (AgentError InterfaceError)))
      | JObject kvs \<Rightarrow> (st, Inl (HTTPException 500 (AgentError InterfaceError)))
      | _ \<Rightarrow> (st, Inl (HTTPException 500 (AgentError ValidationError))))"

definition chat ::
  "collaborators \<Rightarrow> app_state \<Rightarrow> chat_request \<Rightarrow> app_state \<times> (http_exception + chat_response)" where
  "chat env st req =
     (let session = cr_session_id req;
          user_msg = mask_aadhaar (strip (cr_message req))
      in if user_msg = [] then (st, Inl (HTTPException 400 (Detail ''Empty message'')))
         else
           (let st1 = st\<lparr>chat_history :=
                  add_turn (now_user env) session ''user'' user_msg (chat_history st)\<rparr>;
                conversation_context = build_conversation_context (chat_history st1) session 5
            in case call_ask env st1 user_msg (cr_k req) of
                 Inl e \<Rightarrow> (st1, Inl e)
               | Inr ask_resp \<Rightarrow>
                   (let answer = ar_answer ask_resp;
                        cites = ar_citations ask_resp;
                        clarification_check =
                          check_needs_clarification_with_llm env user_msg answer
                            conversation_context
                    in if truthy (needs_clarification clarification_check)
                       then store_and_respond env st1 session
                              (clarification_question clarification_check) cites
                              \<lparr>ri_k = cr_k req, ri_latency_ms = chat_latency_ms env,
                                ri_grounding_score = None\<rparr>
                              True (confidence clarification_check)
                       else store_and_respond env st1 session
                              (JString (mask_aadhaar
                                 (generate_response_with_llm env user_msg answer
                                    conversation_context)))
                              cites (ar_retrieval ask_resp)
                              False (confidence clarification_check))))"

section \<open>Collaborators for the examples\<close>

text \<open>
  \<open>loads\<close> reads JSON as \<open>json.loads\<close> does, on ASCII text: whitespace, strings with their
  escapes, numbers, \<open>null\<close>, \<open>true\<close>, \<open>false\<close>, arrays and objects (a repeated key keeps
  its place and takes the later value), and nothing behind the value but whitespace. A
  number with a fraction or an exponent is its exact decimal value. The constants \<open>NaN\<close>
  and \<open>Infinity\<close> and the escapes \<open>\u0100\<close> and above have no value here and are refused.
  The first argument of \<open>scan_once\<close>, \<open>parse_object\<close> and \<open>parse_array\<close> bounds the depth
  of the calls; \<open>loads\<close> gives more than the text can use.
\<close>

definition is_json_space :: "char \<Rightarrow> bool" where
  "is_json_space c \<longleftrightarrow> c \<in> set [CHR 0x20, CHR 0x09, CHR 0x0A, CHR 0x0D]"

definition skip_ws :: "string \<Rightarrow> string" where
  "skip_ws s = dropWhile is_json_space s"

definition digit_value :: "char \<Rightarrow> nat" where
  "digit_value c = length (takeWhile (\<lambda>x. x \<noteq> c) ''0123456789'')"

definition nat_of_digits :: "string \<Rightarrow> nat" where
  "nat_of_digits ds = foldl (\<lambda>n c. 10 * n + digit_value c) 0 ds"

definition hex_value :: "char \<Rightarrow> nat option" where
  "hex_value c =
     (if lower_char c \<in> set ''0123456789abcdef''
      then Some (length (takeWhile (\<lambda>x. x \<noteq> lower_char c) ''0123456789abcdef''))
      else None)"

definition decode_uXXXX :: "char \<Rightarrow> char \<Rightarrow> char \<Rightarrow> char \<Rightarrow> char option" where
  "decode_uXXXX h1 h2 h3 h4 =
     (case (hex_value h1, hex_value h2, hex_value h3, hex_value h4) of
        (Some a, Some b, Some c, Some d) \<Rightarrow>
          (if a = 0 \<and> b = 0 then Some (char_of (16 * c + d)) else None)
      | _ \<Rightarrow> None)"

definition backslash :: "(char \<times> char) list" where
  "backslash =
     [(CHR 0x22, CHR 0x22), (CHR 0x5C, CHR 0x5C), (CHR ''/'', CHR ''/''),
      (CHR ''b'', CHR 0x08), (CHR ''f'', CHR 0x0C), (CHR ''n'', CHR 0x0A),
      (CHR ''r'', CHR 0x0D), (CHR ''t'', CHR 0x09)]"

fun scanstring :: "string \<Rightarrow> (string \<times> string) option" where
  "scanstring [] = None"
| "scanstring (c # cs) =
     (if c = CHR 0x22 then Some ([], cs)
      else if c = CHR 0x5C then
        (case cs of
           [] \<Rightarrow> None
         | e # r \<Rightarrow>
             (if e = CHR ''u'' then
                (case r of
                   h1 # h2 # h3 # h4 # r' \<Rightarrow>
                     (case decode_uXXXX h1 h2 h3 h4 of
                        None \<Rightarrow> None
                      | Some x \<Rightarrow> map_option (\<lambda>(s, rest). (x # s, rest)) (scanstring r'))
                 | _ \<Rightarrow> None)
              else
                (case map_of backslash e of
                   None \<Rightarrow> None
                 | Some x \<Rightarrow> map_option (\<lambda>(s, rest). (x # s, rest)) (scanstring r))))
      else if (of_char c :: nat) < 32 then None
      else map_option (\<lambda>(s, rest). (c # s, rest)) (scanstring cs))"

definition scale10 :: "real \<Rightarrow> int \<Rightarrow> real" where
  "scale10 x e = (if 0 \<le> e then x * 10 ^ nat e else x / 10 ^ nat (- e))"

definition scan_number :: "string \<Rightarrow> (json \<times> string) option" where
  "scan_number s =
     (let negative = (s \<noteq> [] \<and> hd s = CHR ''-'');
          s1 = (if negative then tl s else s)
      in if s1 = [] \<or> \<not> is_digit (hd s1) then None
         else
           (let int_digits = (if hd s1 = CHR ''0'' then ''0'' else takeWhile is_digit s1);
                s2 = drop (length int_digits) s1;
                has_frac = (case s2 of p # f # _ \<Rightarrow> p = CHR ''.'' \<and> is_digit f | _ \<Rightarrow> False);
                frac_digits = (if has_frac then takeWhile is_digit (tl s2) else []);
                s3 = (if has_frac then drop (Suc (length frac_digits)) s2 else s2);
                e_sign = (case s3 of e # g # _ \<Rightarrow> (e = CHR ''e'' \<or> e = CHR ''E'') \<and> (g = CHR ''+'' \<or> g = CHR ''-'') | _ \<Rightarrow> False);
                s4 = (if s3 = [] then [] else drop (if e_sign then 2 else 1) s3);
                has_exp = (s3 \<noteq> [] \<and> (hd s3 = CHR ''e'' \<or> hd s3 = CHR ''E'') \<and> s4 \<noteq> [] \<and> is_digit (hd s4));
                exp_digits = (if has_exp then takeWhile is_digit s4 else []);
                s5 = (if has_exp then dropWhile is_digit s4 else s3);
                exponent = (if e_sign \<and> hd (tl s3) = CHR ''-'' then - int (nat_of_digits exp_digits)
                            else int (nat_of_digits exp_digits));
                magnitude = scale10 (real (nat_of_digits int_digits)
                              + real (nat_of_digits frac_digits) / 10 ^ length frac_digits) exponent
            in if has_frac \<or> has_exp
               then Some (JFloat (if negative then - magnitude else magnitude), s5)
               else Some (JInt (if negative then - int (nat_of_digits int_digits)
                                else int (nat_of_digits int_digits)), s5)))"

fun scan_once :: "nat \<Rightarrow> string \<Rightarrow> (json \<times> string) option"
and parse_object :: "nat \<Rightarrow> (string \<times> json) list \<Rightarrow> string \<Rightarrow> (json \<times> string) option"
and parse_array :: "nat \<Rightarrow> json list \<Rightarrow> string \<Rightarrow> (json \<times> string) option" where
  "scan_once 0 s = None"
| "scan_once (Suc n) s =
     (case s of
        [] \<Rightarrow> None
      | c # cs \<Rightarrow>
          (if c = CHR 0x22 then map_option (\<lambda>(x, rest). (JString x, rest)) (scanstring cs)
           else if c = CHR ''{'' then
             (case skip_ws cs of
                [] \<Rightarrow> None
              | d # rest \<Rightarrow> if d = CHR ''}'' then Some (JObject [], rest)
                           else parse_object n [] (d # rest))
           else if c = CHR ''['' then
             (case skip_ws cs of
                [] \<Rightarrow> None
              | d # rest \<Rightarrow> if d = CHR '']'' then Some (JArray [], rest)
                           else parse_array n [] (d # rest))
           else if take 4 s = ''null'' then Some (JNull, drop 4 s)
           else if take 4 s = ''true'' then Some (JBool True, drop 4 s)
           else if take 5 s = ''false'' then Some (JBool False, drop 5 s)
           else scan_number s))"
| "parse_object 0 pairs s = None"
| "parse_object (Suc n) pairs s =
     (case s of
        [] \<Rightarrow> None
      | c # cs \<Rightarrow>
          (if c \<noteq> CHR 0x22 then None
           else
             (case scanstring cs of
                None \<Rightarrow> None
              | Some (key, r1) \<Rightarrow>
                  (case skip_ws r1 of
                     [] \<Rightarrow> None
                   | colon # r2 \<Rightarrow>
                       (if colon \<noteq> CHR '':'' then None
                        else
                          (case scan_once n (skip_ws r2) of
                             None \<Rightarrow> None
                           | Some (v, r3) \<Rightarrow>
                               (case skip_ws r3 of
                                  [] \<Rightarrow> None
                                | d # r4 \<Rightarrow>
                                    (if d = CHR ''}''
                                     then Some (JObject (AList.update key v pairs), r4)
                                     else if d = CHR '',''
                                     then parse_object n (AList.update key v pairs) (skip_ws r4)
                                     else None))))))))"
| "parse_array 0 items s = None"
| "parse_array (Suc n) items s =
     (case scan_once n s of
        None \<Rightarrow> None
      | Some (v, r1) \<Rightarrow>
          (case skip_ws r1 of
             [] \<Rightarrow> None
           | d # r2 \<Rightarrow>
               (if d = CHR '']'' then Some (JArray (items @ [v]), r2)
                else if d = CHR '','' then parse_array n (items @ [v]) (skip_ws r2)
                else None)))"

definition loads :: "string \<Rightarrow> json option" where
  "loads s =
     (case scan_once (Suc (length s)) (skip_ws s) of
        None \<Rightarrow> None
      | Some (v, rest) \<Rightarrow> if skip_ws rest = [] then Some v else None)"

text \<open>A string read as a float, for the decimal numbers of JSON.\<close>

definition decimal_of_str :: "string \<Rightarrow> real option" where
  "decimal_of_str s =
     (case scan_number (strip s) of
        Some (JFloat r, []) \<Rightarrow> Some r
      | Some (JInt i, []) \<Rightarrow> Some (of_int i)
      | _ \<Rightarrow> None)"

text \<open>
  Arithmetic without rounding, for the examples: on the vectors used there every
  operation of numpy is exact. A division of a finite value by zero gives \<open>inf\<close>, \<open>-inf\<close> or
  \<open>nan\<close> as numpy has it; no example goes further, and every other operation outside the
  finite values, and the mean of no value, is given \<open>nan\<close>.
\<close>

fun value_of :: "pyfloat \<Rightarrow> real" where
  "value_of (Finite x) = x"
| "value_of x = 0"

fun is_finite :: "pyfloat \<Rightarrow> bool" where
  "is_finite (Finite x) = True"
| "is_finite x = False"

definition exact_norm :: "pyfloat list \<Rightarrow> pyfloat" where
  "exact_norm v =
     (if list_all is_finite v then Finite (sqrt (\<Sum>x\<leftarrow>v. value_of x * value_of x)) else NaN)"

definition exact_divide :: "pyfloat \<Rightarrow> pyfloat \<Rightarrow> pyfloat" where
  "exact_divide x n =
     (if is_finite x \<and> is_finite n
      then (if value_of n \<noteq> 0 then Finite (value_of x / value_of n)
            else if value_of x = 0 then NaN
            else if 0 < value_of x then PosInf else NegInf)
      else NaN)"

definition exact_dot :: "pyfloat list \<Rightarrow> pyfloat list \<Rightarrow> pyfloat" where
  "exact_dot u v =
     (if list_all is_finite u \<and> list_all is_finite v
      then Finite (\<Sum>(x, y)\<leftarrow>zip u v. value_of x * value_of y) else NaN)"

definition exact_mean :: "pyfloat list \<Rightarrow> pyfloat" where
  "exact_mean xs =
     (if xs \<noteq> [] \<and> list_all is_finite xs
      then Finite (sum_list (map value_of xs) / real (length xs))
      else NaN)"

text \<open>
  An exact index, for the examples: the labels of the \<open>k\<close> stored vectors nearest to the
  query in squared Euclidean distance, nearest first and earlier label first among
  equally near ones, then the label \<open>-1\<close> for every answer the index has no vector for.
\<close>

definition l2_distance :: "pyfloat list \<Rightarrow> pyfloat list \<Rightarrow> real" where
  "l2_distance u v = (\<Sum>(x, y)\<leftarrow>zip u v. (value_of x - value_of y) * (value_of x - value_of y))"

definition exact_search :: "pyfloat list list \<Rightarrow> pyfloat list \<Rightarrow> int \<Rightarrow> int list" where
  "exact_search vectors q k =
     map int (take (nat k) (sort_key (\<lambda>i. l2_distance q (vectors ! i)) [0..<length vectors]))
     @ replicate (nat k - length vectors) (- 1)"

text \<open>
  An embedding model of dimension 2, with vectors of different norms on which float32
  arithmetic is exact.
\<close>

definition plane_encode :: "string \<Rightarrow> pyfloat list" where
  "plane_encode s =
     (if s = ''far'' then [Finite 10, Finite 0]
      else if s = ''near'' then [Finite 0, Finite 3]
      else [Finite 4, Finite 0])"

text \<open>The collaborators with the language model out of reach: both calls raise.\<close>

definition offline :: collaborators where
  "offline =
     \<lparr>encode = plane_encode, search = exact_search,
      linalg_norm = exact_norm, true_divide = exact_divide, np_dot = exact_dot,
      np_mean = exact_mean, json_loads = loads,
      float_of_str = decimal_of_str,
      invoke_clarification = (\<lambda>query history grounding. None),
      invoke_response = (\<lambda>query history grounding. None),
      now_user = 1, now_assistant = 2, ask_latency_ms = 0, chat_latency_ms = 0\<rparr>"

definition two_chunks :: "(string \<times> string) list" where
  "two_chunks = [(''a.txt'', ''far''), (''b.txt'', ''near'')]"

text \<open>The same collaborators with an index that answers with no label.\<close>

definition no_hits :: collaborators where
  "no_hits = offline\<lparr>search := (\<lambda>vectors q k. [])\<rparr>"

text \<open>
  Collaborators whose clarification call answers: with a text that holds no JSON, with
  a JSON object between two sentences, with a JSON object behind a sentence that has
  braces of its own, and with a question that quotes a twelve-digit number.
\<close>

definition silent :: collaborators where
  "silent = offline\<lparr>invoke_clarification := (\<lambda>query history grounding. Some ''I cannot tell.'')\<rparr>"

definition chatty :: collaborators where
  "chatty = offline\<lparr>invoke_clarification := (\<lambda>query history grounding.
     Some ''Sure. {\"needs_clarification\": false} Done.'')\<rparr>"

definition bracing :: collaborators where
  "bracing = offline\<lparr>invoke_clarification := (\<lambda>query history grounding.
     Some ''See {1}: {\"needs_clarification\": false}'')\<rparr>"

definition leaky :: collaborators where
  "leaky = offline\<lparr>invoke_clarification := (\<lambda>query history grounding.
     Some (''{\"needs_clarification\": true, '' @
           ''\"clarification_question\": \"Is 123412345678 your Aadhaar?\"}''))\<rparr>"

text \<open>The chunks of an index of one document.\<close>

definition faq :: "(string \<times> string) list" where
  "faq = [(''faq.txt'', ''Policy 101 covers water damage up to 50,000 for every insured home.'')]"

text \<open>A chat request for the examples.\<close>

definition policy_question :: chat_request where
  "policy_question = \<lparr>cr_message = '' What does policy 101 cover? '', cr_session_id = ''s1'', cr_k = 1\<rparr>"

section \<open>Notions of the claims\<close>

text \<open>
  The cosine similarity as the code computes it, what one turn of the loop of \<open>retrieve\<close>
  adds for the label \<open>idx\<close>, and the order of the scores that C1 speaks of.
\<close>

definition computed_similarity :: "collaborators \<Rightarrow> pyfloat list \<Rightarrow> pyfloat list \<Rightarrow> pyfloat" where
  "computed_similarity env u v =
     np_dot env (divide_by env u (linalg_norm env u)) (divide_by env v (linalg_norm env v))"

definition label_similarity ::
  "collaborators \<Rightarrow> (string \<times> string) list \<Rightarrow> pyfloat list \<Rightarrow> int \<Rightarrow> pyfloat" where
  "label_similarity env store q idx = computed_similarity env q (encode env (snd (store ! nat idx)))"

definition label_result ::
  "collaborators \<Rightarrow> (string \<times> string) list \<Rightarrow> pyfloat list \<Rightarrow> int \<Rightarrow> chunk_result" where
  "label_result env store q idx =
     \<lparr>doc = fst (store ! nat idx),
      citation_preview = join '' '' (take 8 (str_split (snd (store ! nat idx)))),
      full_snippet = snd (store ! nat idx),
      similarity_score = round4 (label_similarity env store q idx)\<rparr>"

definition descending_scores :: "chunk_result list \<Rightarrow> bool" where
  "descending_scores results \<longleftrightarrow>
     sorted_wrt (\<lambda>a b. float_le (similarity_score b) (similarity_score a)) results"

text \<open>
  A run \<open>r\<close> of twelve digits bounded by word boundaries, in the text \<open>pre @ r @ post\<close>.
\<close>

definition bounded_run :: "string \<Rightarrow> string \<Rightarrow> string \<Rightarrow> bool" where
  "bounded_run pre r post \<longleftrightarrow>
     length r = 12 \<and> list_all is_digit r \<and>
     (pre = [] \<or> \<not> is_word (last pre)) \<and> (post = [] \<or> \<not> is_word (hd post))"

text \<open>
  The ways the \<open>try\<close> block of the clarification check ends in its \<open>except\<close> branch, the
  two fixed texts of the fallbacks, the language model out of reach, and a response made
  of commentary \<open>lead\<close>, a text \<open>obj\<close> from a \<open>{\<close> to a \<open>}\<close>, and commentary \<open>trail\<close>.
\<close>

definition clarification_call_fails :: "collaborators \<Rightarrow> string \<Rightarrow> string \<Rightarrow> string \<Rightarrow> bool" where
  "clarification_call_fails env query grounding history \<longleftrightarrow>
     (case invoke_clarification env query history
             (if grounding \<noteq> [] then grounding else ''No relevant information found.'') of
        None \<Rightarrow> True
      | Some result \<Rightarrow>
          (case json_loads env (extract_json result) of
             None \<Rightarrow> True
           | Some v \<Rightarrow> (case v of JObject d \<Rightarrow> False | _ \<Rightarrow> True)))"

definition clarification_text :: string where
  "clarification_text =
     ''I don't have enough information to answer your question. '' @
     ''Could you provide more details or specify which policy (101 or 201) '' @
     ''you're referring to?''"

definition apology_text :: string where
  "apology_text = ''I apologize, but I'm having trouble generating a response at the moment.''"

definition llm_unavailable :: "collaborators \<Rightarrow> bool" where
  "llm_unavailable env \<longleftrightarrow>
     (\<forall>query history grounding. invoke_clarification env query history grounding = None) \<and>
     (\<forall>query history grounding. invoke_response env query history grounding = None)"

definition commentary_around :: "string \<Rightarrow> string \<Rightarrow> string \<Rightarrow> bool" where
  "commentary_around lead obj trail \<longleftrightarrow>
     (\<exists>mid. obj = CHR ''{'' # mid @ ''}'') \<and> CHR ''{'' \<notin> set lead \<and> CHR ''}'' \<notin> set trail"

section \<open>Properties of the masking\<close>

lemma sub_from_hit:
  "\<not> pw \<Longrightarrow> at_match (c # cs) \<Longrightarrow>
   sub_from pw (c # cs) = ''XXXX-XXXX-'' @ drop 8 (take 12 (c # cs)) @ sub_from True (drop 12 (c # cs))"
  by simp

lemma sub_from_miss:
  "pw \<or> \<not> at_match (c # cs) \<Longrightarrow> sub_from pw (c # cs) = c # sub_from (is_word c) cs"
  by auto


declare sub_from.simps(2) [simp del]

lemma digit_word: "is_digit c \<Longrightarrow> is_word c"
  by (auto simp: is_digit_def is_word_def)

lemma take_sub_from_True:
  "list_all is_word (take k (sub_from True s)) \<Longrightarrow> take (Suc k) (sub_from True s) = take (Suc k) s"
proof (induction k arbitrary: s)
  case 0
  then show ?case by (cases s) (simp_all add: sub_from_miss)
next
  case (Suc k)
  show ?case
  proof (cases s)
    case Nil
    then show ?thesis by simp
  next
    case (Cons a list)
    have e: "sub_from True (a # list) = a # sub_from (is_word a) list"
      by (simp add: sub_from_miss)
    from Suc.prems have w: "is_word a" unfolding Cons e by simp
    from Suc.prems have r: "list_all is_word (take k (sub_from True list))"
      unfolding Cons e using w by simp
    from Suc.IH [OF r] Cons w show ?thesis by (simp add: sub_from_miss)
  qed
qed

lemma at_match_take13: "at_match s = at_match (take 13 s)"
  by (auto simp: at_match_def min_def drop_take split: list.splits)

lemma at_match_cong: "take 13 s = take 13 t \<Longrightarrow> at_match s = at_match t"
  using at_match_take13 [of s] at_match_take13 [of t] by simp

lemma at_match_digit: "at_match (c # cs) \<Longrightarrow> is_digit c"
  by (simp add: at_match_def)

lemma at_match_digits: "at_match s \<Longrightarrow> list_all is_digit (take 12 s)"
  by (simp add: at_match_def)

lemma sub_from_not_digit: "\<not> is_digit c \<Longrightarrow> sub_from pw (c # cs) = c # sub_from (is_word c) cs"
  using at_match_digit by (intro sub_from_miss) blast


lemma hd_sub_from_True:
  "t = [] \<or> \<not> is_word (hd t) \<Longrightarrow> sub_from True t = [] \<or> \<not> is_word (hd (sub_from True t))"
  by (cases t) (auto simp: sub_from_miss)

lemma not_at_match_short:
  assumes "length d < 12" "t = [] \<or> \<not> is_word (hd t)"
  shows "\<not> at_match (d @ t)"
proof (cases t)
  case Nil
  with assms show ?thesis by (simp add: at_match_def)
next
  case (Cons a list)
  with assms have "\<not> is_digit a" using digit_word by auto
  moreover have "a \<in> set (take 12 (d @ t))"
  proof -
    obtain n where "12 - length d = Suc n" using assms(1) by (cases "12 - length d") auto
    then show ?thesis using Cons by simp
  qed
  ultimately show ?thesis by (auto simp: at_match_def list_all_iff simp del: take_append)
qed

lemma sub_from_replacement:
  assumes "length d = 4" "list_all is_digit d" "t = [] \<or> \<not> is_word (hd t)"
  shows "sub_from pw (''XXXX-XXXX-'' @ d @ t) = ''XXXX-XXXX-'' @ d @ sub_from True t"
proof -
  obtain d1 d2 d3 d4 where d: "d = [d1, d2, d3, d4]"
    using assms(1) by (auto simp: length_Suc_conv numeral_eq_Suc)
  have X: "\<not> is_digit CHR ''X''" "\<not> is_digit CHR ''-''" "\<not> is_word CHR ''-''"
    by (simp_all add: is_digit_def is_word_def)
  have n: "\<not> at_match (d1 # d2 # d3 # d4 # t)" using not_at_match_short [of d t] assms d by simp
  have w: "is_word d1" "is_word d2" "is_word d3" "is_word d4" using assms(2) d digit_word by auto
  have "sub_from False (d @ t) = d @ sub_from True t"
    using n w unfolding d by (simp add: sub_from_miss)
  then show ?thesis using X by (simp add: sub_from_not_digit)
qed

lemma sub_from_idem: "sub_from pw (sub_from pw s) = sub_from pw s"
proof (induction pw s rule: sub_from.induct)
  case (1 pw)
  then show ?case by simp
next
  case (2 pw c cs)
  show ?case
  proof (cases "\<not> pw \<and> at_match (c # cs)")
    case True
    let ?d = "drop 8 (take 12 (c # cs))"
    let ?r = "drop 12 (c # cs)"
    from True have m: "at_match (c # cs)" ..
    have d: "length ?d = 4" "list_all is_digit ?d"
      using m by (auto simp: at_match_def list_all_iff dest: in_set_dropD)
    have r: "?r = [] \<or> \<not> is_word (hd ?r)"
      using m by (auto simp: at_match_def split: list.splits)
    have t: "sub_from True ?r = [] \<or> \<not> is_word (hd (sub_from True ?r))"
      using hd_sub_from_True [OF r] .
    have eq: "sub_from pw (c # cs) = ''XXXX-XXXX-'' @ ?d @ sub_from True ?r"
      using True by (simp add: sub_from_hit)
    have "sub_from pw (''XXXX-XXXX-'' @ ?d @ sub_from True ?r)
          = ''XXXX-XXXX-'' @ ?d @ sub_from True (sub_from True ?r)"
      using sub_from_replacement [OF d t] .
    also have "sub_from True (sub_from True ?r) = sub_from True ?r"
      using "2.IH"(1) [OF True] .
    finally show ?thesis unfolding eq .
  next
    case False
    let ?M = "sub_from (is_word c) cs"
    have eq: "sub_from pw (c # cs) = c # ?M" using False by (intro sub_from_miss) blast
    have nm: "pw \<or> \<not> at_match (c # ?M)"
    proof (rule ccontr)
      assume "\<not> (pw \<or> \<not> at_match (c # ?M))"
      then have a: "\<not> pw" "at_match (c # ?M)" by simp_all
      then have dg: "is_digit c" using at_match_digit by blast
      then have wc: "is_word c" by (rule digit_word)
      have s: "sub_from True (c # cs) = c # ?M" by (simp add: sub_from_miss)
      have "list_all is_digit (take 12 (c # ?M))" using a at_match_digits by blast
      then have "list_all is_word (take 12 (sub_from True (c # cs)))"
        unfolding s using digit_word by (auto simp: list_all_iff)
      then have "take 13 (sub_from True (c # cs)) = take 13 (c # cs)"
        using take_sub_from_True [of 12 "c # cs"] by simp
      then have "at_match (c # ?M) = at_match (c # cs)"
        unfolding s by (rule at_match_cong)
      with a False show False by simp
    qed
    have "sub_from pw (c # ?M) = c # sub_from (is_word c) ?M"
      using nm by (rule sub_from_miss)
    also have "sub_from (is_word c) ?M = ?M" using "2.IH"(2) [OF False] .
    finally show ?thesis unfolding eq .
  qed
qed





text \<open>
  C9. Masking is idempotent: masking a masked text changes nothing,
  \<open>mask_aadhaar(mask_aadhaar(x)) == mask_aadhaar(x)\<close> for every text \<open>x\<close>.
\<close>

theorem mask_aadhaar_idempotent: "mask_aadhaar (mask_aadhaar x) = mask_aadhaar x"
  unfolding mask_aadhaar_def by (rule sub_from_idem)

theorem mask_aadhaar_idempotent_witness:
  "mask_aadhaar (mask_aadhaar ''id 123412345678'') = mask_aadhaar ''id 123412345678''"
  using mask_aadhaar_idempotent [of "''id 123412345678''"] .






section \<open>Properties of the retrieval\<close>

lemma length_divide_by [simp]: "length (divide_by env v n) = length v"
  by (simp add: divide_by_def)

lemma retrieve_loop_returns:
  assumes dims: "\<forall>s. length (encode env s) = length q"
  shows "\<forall>i\<in>set labels. 0 \<le> i \<and> i < int (length store) \<Longrightarrow>
         retrieve_loop env store (divide_by env q (linalg_norm env q)) labels =
           Inr (map (label_result env store q) labels, map (label_similarity env store q) labels)"
proof (induction labels)
  case Nil
  then show ?case by simp
next
  case (Cons idx rest)
  then have v: "0 \<le> idx" "idx < int (length store)" by simp_all
  obtain doc_name snippet where e: "store ! nat idx = (doc_name, snippet)" by (cases "store ! nat idx")
  have g: "getitem store idx = Inr (doc_name, snippet)" using v e by (simp add: getitem_def)
  have d: "dot env (divide_by env q (linalg_norm env q))
             (divide_by env (encode env snippet) (linalg_norm env (encode env snippet)))
           = Inr (computed_similarity env q (encode env snippet))"
    using dims by (simp add: dot_def computed_similarity_def)
  have ih: "retrieve_loop env store (divide_by env q (linalg_norm env q)) rest =
           Inr (map (label_result env store q) rest, map (label_similarity env store q) rest)"
    using Cons by simp
  show ?case
    by (simp add: g d ih label_result_def label_similarity_def e Let_def)
qed

lemma retrieve_built:
  assumes "docs \<noteq> []"
  shows "index (build_index env docs st0) = Some (map (encode env) (map snd docs))"
    and "metadata_store (build_index env docs st0) = docs"
  using assms by (simp_all add: build_index_def)

lemmas ex_defs = retrieve_def build_index_def offline_def no_hits_def two_chunks_def initial_state_def
      plane_encode_def exact_search_def l2_distance_def getitem_def divide_by_def exact_norm_def
      exact_divide_def exact_dot_def exact_mean_def computed_similarity_def
      dot_def str_split_def is_space_def round_half_even_def Let_def

text \<open>
  C1, as amended. When the index is built, the embedding model returns vectors of one
  dimension, and \<open>index.search\<close> returns at most \<open>k\<close> labels, each the position of an indexed
  chunk, \<open>retrieve(q, k)\<close> returns one result for each label, in the order of the labels,
  so a list of length at most \<open>k\<close>. Nothing is stated about the order of the
  \<open>similarity_score\<close> values: the list need not be sorted by them.
\<close>

theorem retrieve_in_index_order:
  assumes built: "docs \<noteq> []" "st = build_index env docs st0"
    and dims: "\<forall>s. length (encode env s) = n"
    and labels: "labels = search env (map (encode env) (map snd docs)) (encode env q) k"
    and valid: "\<forall>i\<in>set labels. 0 \<le> i \<and> i < int (length docs)"
    and len: "length labels \<le> nat k"
  shows "\<exists>results g. retrieve env st q k = Inr (results, g)
           \<and> length results \<le> nat k
           \<and> map (\<lambda>r. (doc r, full_snippet r)) results = map (\<lambda>i. docs ! nat i) labels"
proof -
  let ?q = "encode env q"
  let ?rs = "map (label_result env docs ?q) labels"
  let ?ss = "map (label_similarity env docs ?q) labels"
  have d: "\<forall>s. length (encode env s) = length ?q" using dims by simp
  have loop: "retrieve_loop env docs (divide_by env ?q (linalg_norm env ?q)) labels = Inr (?rs, ?ss)"
    using retrieve_loop_returns [OF d valid] .
  have r: "retrieve env st q k = Inr (?rs, if ?ss \<noteq> [] then np_mean env ?ss else Finite 0)"
    unfolding retrieve_def built(2) retrieve_built [OF built(1)]
    using loop labels by (simp add: Let_def)
  have l: "length ?rs \<le> nat k" using len by simp
  have m: "map (\<lambda>r. (doc r, full_snippet r)) ?rs = map (\<lambda>i. docs ! nat i) labels"
    by (simp add: label_result_def)
  show ?thesis using r l m by blast
qed

theorem retrieve_in_index_order_witness:
  "two_chunks \<noteq> []
   \<and> (\<forall>s. length (encode offline s) = 2)
   \<and> search offline (map (encode offline) (map snd two_chunks)) (encode offline ''q'') 2 = [1, 0]
   \<and> (\<exists>results g. retrieve offline (build_index offline two_chunks initial_state) ''q'' 2
                        = Inr (results, g)
          \<and> length results \<le> 2
          \<and> map (\<lambda>r. (doc r, full_snippet r)) results = [(''b.txt'', ''near''), (''a.txt'', ''far'')])"
proof -
  let ?env = offline
  have ne: "two_chunks \<noteq> []" by (simp add: two_chunks_def)
  have dims: "\<forall>s. length (encode ?env s) = 2"
    by (simp add: offline_def plane_encode_def)
  have labels: "[1, 0] = search ?env (map (encode ?env) (map snd two_chunks)) (encode ?env ''q'') 2"
    by (simp add: ex_defs)
  have valid: "\<forall>i\<in>set [1, 0::int]. 0 \<le> i \<and> i < int (length two_chunks)"
    by (simp add: two_chunks_def)
  have len: "length [1, 0::int] \<le> nat 2" by simp
  from retrieve_in_index_order [OF ne refl dims labels valid len, of initial_state]
  obtain results g where
    r: "retrieve ?env (build_index ?env two_chunks initial_state) ''q'' 2 = Inr (results, g)"
    and l: "length results \<le> nat 2"
    and m: "map (\<lambda>r. (doc r, full_snippet r)) results = map (\<lambda>i. two_chunks ! nat i) [1, 0]"
    by blast
  have m': "map (\<lambda>r. (doc r, full_snippet r)) results = [(''b.txt'', ''near''), (''a.txt'', ''far'')]"
    using m by (simp add: two_chunks_def)
  have l': "length results \<le> 2" using l by simp
  have "\<exists>results g. retrieve ?env (build_index ?env two_chunks initial_state) ''q'' 2
                        = Inr (results, g)
          \<and> length results \<le> 2
          \<and> map (\<lambda>r. (doc r, full_snippet r)) results = [(''b.txt'', ''near''), (''a.txt'', ''far'')]"
    using r l' m' by (intro exI conjI)
  then show ?thesis using ne dims labels [symmetric] by (intro conjI)
qed

theorem retrieve_not_descending_counterexample:
  "search offline (map (encode offline) (map snd two_chunks)) (encode offline ''q'') 2 = [1, 0]
   \<and> retrieve offline (build_index offline two_chunks initial_state) ''q'' 2 =
     Inr ([\<lparr>doc = ''b.txt'', citation_preview = ''near'', full_snippet = ''near'',
            similarity_score = Finite 0\<rparr>,
           \<lparr>doc = ''a.txt'', citation_preview = ''far'', full_snippet = ''far'',
            similarity_score = Finite 1\<rparr>],
          Finite (1 / 2))
   \<and> \<not> descending_scores
         [\<lparr>doc = ''b.txt'', citation_preview = ''near'', full_snippet = ''near'',
           similarity_score = Finite 0\<rparr>,
          \<lparr>doc = ''a.txt'', citation_preview = ''far'', full_snippet = ''far'',
           similarity_score = Finite 1\<rparr>]"
  by (simp add: ex_defs descending_scores_def)

lemma retrieve_loop_similarities:
  "retrieve_loop env store (divide_by env q (linalg_norm env q)) labels = Inr (results, similarities) \<Longrightarrow>
   similarities = map (\<lambda>r. computed_similarity env q (encode env (full_snippet r))) results"
proof (induction labels arbitrary: results similarities)
  case Nil
  then show ?case by simp
next
  case (Cons idx rest)
  from Cons.prems obtain doc_name snippet where g: "getitem store idx = Inr (doc_name, snippet)"
    by (auto split: sum.splits)
  from Cons.prems g obtain c where
    c: "dot env (divide_by env q (linalg_norm env q))
          (divide_by env (encode env snippet) (linalg_norm env (encode env snippet))) = Inr c"
    by (auto simp: Let_def split: sum.splits)
  from Cons.prems g c obtain rs ss where
    t: "retrieve_loop env store (divide_by env q (linalg_norm env q)) rest = Inr (rs, ss)"
    by (auto simp: Let_def split: sum.splits)
  have cv: "c = computed_similarity env q (encode env snippet)"
    using c by (simp add: dot_def computed_similarity_def split: if_splits)
  have "results = \<lparr>doc = doc_name, citation_preview = join '' '' (take 8 (str_split snippet)),
                     full_snippet = snippet, similarity_score = round4 c\<rparr> # rs"
       "similarities = c # ss"
    using Cons.prems g c t by (simp_all add: Let_def)
  then show ?case using Cons.IH [OF t] cv by simp
qed

text \<open>
  C2, as amended. Whenever \<open>retrieve\<close> returns, its \<open>grounding_score\<close> is \<open>np.mean\<close> of the
  cosine similarities between the query and the returned chunks, each as the code
  computes it in floating point from the two embeddings divided by their norms, and is
  \<open>0.0\<close> when the list of results is empty. While the index is not built \<open>retrieve\<close>
  returns no score: it raises; and \<open>build_index\<close> builds no index when no chunk is given.
  Nothing is stated about an interval the score lies in.
\<close>

theorem grounding_score_is_mean:
  "(\<forall>results g. retrieve env st q k = Inr (results, g) \<longrightarrow>
      g = (if results = [] then Finite 0
           else np_mean env
                  (map (\<lambda>r. computed_similarity env (encode env q) (encode env (full_snippet r)))
                     results)))
   \<and> (index st = None \<longrightarrow> retrieve env st q k = Inl (RuntimeError ''Index not initialized''))
   \<and> index (build_index env [] initial_state) = None"
proof (intro conjI allI impI)
  fix results g
  assume r: "retrieve env st q k = Inr (results, g)"
  let ?q = "encode env q"
  let ?cs = "map (\<lambda>r. computed_similarity env ?q (encode env (full_snippet r))) results"
  from r obtain vectors where v: "index st = Some vectors"
    by (auto simp: retrieve_def split: option.splits)
  from r v obtain ss where
    loop: "retrieve_loop env (metadata_store st) (divide_by env ?q (linalg_norm env ?q))
             (search env vectors ?q k) = Inr (results, ss)"
    and g: "g = (if ss \<noteq> [] then np_mean env ss else Finite 0)"
    by (auto simp: retrieve_def Let_def split: sum.splits)
  have ss: "ss = ?cs" using retrieve_loop_similarities [OF loop] .
  show "g = (if results = [] then Finite 0 else np_mean env ?cs)" using g ss by auto
next
  assume "index st = None"
  then show "retrieve env st q k = Inl (RuntimeError ''Index not initialized'')"
    by (simp add: retrieve_def)
next
  show "index (build_index env [] initial_state) = None"
    by (simp add: build_index_def initial_state_def)
qed

theorem grounding_score_is_mean_witness:
  "retrieve offline (build_index offline two_chunks initial_state) ''q'' 2 =
     Inr ([\<lparr>doc = ''b.txt'', citation_preview = ''near'', full_snippet = ''near'',
            similarity_score = Finite 0\<rparr>,
           \<lparr>doc = ''a.txt'', citation_preview = ''far'', full_snippet = ''far'',
            similarity_score = Finite 1\<rparr>],
          Finite (1 / 2))
   \<and> Finite (1 / 2) =
       np_mean offline [computed_similarity offline (encode offline ''q'') (encode offline ''near''),
                        computed_similarity offline (encode offline ''q'') (encode offline ''far'')]
   \<and> retrieve no_hits (build_index no_hits two_chunks initial_state) ''q'' 2 = Inr ([], Finite 0)
   \<and> index initial_state = None
   \<and> retrieve offline initial_state ''q'' 2 = Inl (RuntimeError ''Index not initialized'')"
proof -
  let ?r1 = "\<lparr>doc = ''b.txt'', citation_preview = ''near'', full_snippet = ''near'',
              similarity_score = Finite 0\<rparr>"
  let ?r2 = "\<lparr>doc = ''a.txt'', citation_preview = ''far'', full_snippet = ''far'',
              similarity_score = Finite 1\<rparr>"
  let ?f = "\<lambda>r. computed_similarity offline (encode offline ''q'') (encode offline (full_snippet r))"
  have r: "retrieve offline (build_index offline two_chunks initial_state) ''q'' 2 =
             Inr ([?r1, ?r2], Finite (1 / 2))"
    by (simp add: ex_defs)
  have "\<exists>g. retrieve no_hits (build_index no_hits two_chunks initial_state) ''q'' 2 = Inr ([], g)"
    by (simp add: ex_defs)
  then obtain g0 where
    r0: "retrieve no_hits (build_index no_hits two_chunks initial_state) ''q'' 2 = Inr ([], g0)" ..
  have n: "index initial_state = None" by (simp add: initial_state_def)
  note t = grounding_score_is_mean [of offline "build_index offline two_chunks initial_state" "''q''" 2]
  note t0 = grounding_score_is_mean [of no_hits "build_index no_hits two_chunks initial_state" "''q''" 2]
  note t1 = grounding_score_is_mean [of offline initial_state "''q''" 2]
  from t have a: "\<forall>results g.
      retrieve offline (build_index offline two_chunks initial_state) ''q'' 2 = Inr (results, g) \<longrightarrow>
      g = (if results = [] then Finite 0 else np_mean offline (map ?f results))"
    by (rule conjunct1)
  from a r have b: "Finite (1 / 2) =
      (if [?r1, ?r2] = [] then Finite 0 else np_mean offline (map ?f [?r1, ?r2]))"
    by blast
  from b have c: "Finite (1 / 2) =
       np_mean offline [computed_similarity offline (encode offline ''q'') (encode offline ''near''),
                        computed_similarity offline (encode offline ''q'') (encode offline ''far'')]"
    by simp
  from t0 r0 have "g0 = Finite 0" by simp
  with r0 have e0: "retrieve no_hits (build_index no_hits two_chunks initial_state) ''q'' 2
                     = Inr ([], Finite 0)"
    by simp
  from t1 n have e: "retrieve offline initial_state ''q'' 2 = Inl (RuntimeError ''Index not initialized'')"
    by blast
  show ?thesis using r c e0 n e by (intro conjI)
qed

theorem grounding_score_no_chunks_counterexample:
  "build_index offline [] initial_state = initial_state
   \<and> retrieve offline (build_index offline [] initial_state) ''q'' 3 =
       Inl (RuntimeError ''Index not initialized'')"
  by (simp add: build_index_def retrieve_def initial_state_def)

section \<open>Properties of the clarification check\<close>

text \<open>
  C3. When the clarification call fails or its response cannot be parsed, the decision
  depends on the grounding text only: with a grounding text shorter than 50 characters
  (the empty one among them) it is \<open>needs_clarification = true\<close> with the fixed question and
  confidence 0.3, otherwise \<open>needs_clarification = false\<close> with confidence 0.7.
\<close>

theorem clarification_fallback:
  assumes "clarification_call_fails env query grounding history"
    and "clarification_call_fails env' query' grounding history'"
  shows "check_needs_clarification_with_llm env query grounding history
           = check_needs_clarification_with_llm env' query' grounding history'
         \<and> (length grounding < 50 \<longrightarrow>
              needs_clarification (check_needs_clarification_with_llm env query grounding history) = JBool True
              \<and> clarification_question (check_needs_clarification_with_llm env query grounding history)
                  = JString clarification_text
              \<and> confidence (check_needs_clarification_with_llm env query grounding history) = JFloat (3 / 10))
         \<and> (50 \<le> length grounding \<longrightarrow>
              needs_clarification (check_needs_clarification_with_llm env query grounding history) = JBool False
              \<and> confidence (check_needs_clarification_with_llm env query grounding history) = JFloat (7 / 10))"
proof -
  have f: "check_needs_clarification_with_llm e q grounding h = fallback_check grounding"
    if "clarification_call_fails e q grounding h" for e q h
    using that
    unfolding clarification_call_fails_def check_needs_clarification_with_llm_def
    by (auto split: option.splits json.splits)
  show ?thesis
    unfolding f [OF assms(1)] f [OF assms(2)]
    by (auto simp: fallback_check_def clarification_text_def)
qed

theorem clarification_fallback_witness:
  "clarification_call_fails offline ''claim?'' ''Policy 101'' []
   \<and> clarification_call_fails silent ''status?'' ''Policy 101'' ''Previous conversation:''
   \<and> check_needs_clarification_with_llm offline ''claim?'' ''Policy 101'' []
       = check_needs_clarification_with_llm silent ''status?'' ''Policy 101'' ''Previous conversation:''
   \<and> needs_clarification (check_needs_clarification_with_llm offline ''claim?'' ''Policy 101'' []) = JBool True
   \<and> confidence (check_needs_clarification_with_llm offline ''claim?'' ''Policy 101'' []) = JFloat (3 / 10)
   \<and> clarification_call_fails offline ''claim?'' (replicate 50 CHR ''x'') []
   \<and> needs_clarification (check_needs_clarification_with_llm offline ''claim?'' (replicate 50 CHR ''x'') [])
       = JBool False
   \<and> confidence (check_needs_clarification_with_llm offline ''claim?'' (replicate 50 CHR ''x'') [])
       = JFloat (7 / 10)"
proof -
  have a: "clarification_call_fails offline ''claim?'' ''Policy 101'' []"
    by (simp add: clarification_call_fails_def offline_def)
  have b: "clarification_call_fails silent ''status?'' ''Policy 101'' ''Previous conversation:''"
    by (simp add: clarification_call_fails_def silent_def offline_def extract_json_def strip_def
        is_space_def str_find_def str_rfind_def loads_def skip_ws_def is_json_space_def scan_number_def
        is_digit_def)
  have c: "clarification_call_fails offline ''claim?'' (replicate 50 CHR ''x'') []"
    by (simp add: clarification_call_fails_def offline_def)
  have s: "length ''Policy 101'' < 50" by simp
  have l: "50 \<le> length (replicate 50 CHR ''x'')" by simp
  from clarification_fallback [OF a b] s
  have 1: "check_needs_clarification_with_llm offline ''claim?'' ''Policy 101'' []
       = check_needs_clarification_with_llm silent ''status?'' ''Policy 101'' ''Previous conversation:''"
   "needs_clarification (check_needs_clarification_with_llm offline ''claim?'' ''Policy 101'' []) = JBool True"
   "confidence (check_needs_clarification_with_llm offline ''claim?'' ''Policy 101'' []) = JFloat (3 / 10)"
    by blast+
  from clarification_fallback [OF c c] l
  have 2: "needs_clarification (check_needs_clarification_with_llm offline ''claim?'' (replicate 50 CHR ''x'') [])
       = JBool False"
   "confidence (check_needs_clarification_with_llm offline ''claim?'' (replicate 50 CHR ''x'') [])
       = JFloat (7 / 10)"
    by blast+
  show ?thesis using a b c 1 2 by (intro conjI)
qed

lemma brace_not_space: "\<not> is_space CHR ''{''" "\<not> is_space CHR ''}''"
  by (simp_all add: is_space_def)

lemma strip_around:
  assumes "obj \<noteq> []" "\<not> is_space (hd obj)" "\<not> is_space (last obj)"
  shows "strip (lead @ obj @ trail) =
         dropWhile is_space lead @ obj @ rev (dropWhile is_space (rev trail))"
proof -
  obtain c cs where o: "obj = c # cs" using assms(1) by (cases obj) auto
  have c: "\<not> is_space c" using assms(2) o by simp
  have "dropWhile is_space (lead @ obj @ trail) = dropWhile is_space lead @ obj @ trail"
    using c o by (simp add: dropWhile_append)
  moreover have "dropWhile is_space (rev trail @ rev obj @ rev (dropWhile is_space lead))
                 = dropWhile is_space (rev trail) @ rev obj @ rev (dropWhile is_space lead)"
  proof -
    have "rev obj \<noteq> []" using assms(1) by simp
    moreover have "hd (rev obj) = last obj" using assms(1) by (simp add: hd_rev)
    ultimately obtain d ds where r: "rev obj = d # ds" and d: "\<not> is_space d"
      using assms(3) by (cases "rev obj") auto
    show ?thesis unfolding r using d by (simp add: dropWhile_append)
  qed
  ultimately show ?thesis by (simp add: strip_def)
qed

lemma str_find_first:
  assumes "c \<notin> set lead"
  shows "str_find (lead @ c # rest) c = int (length lead)"
proof -
  have "\<forall>x\<in>set lead. x \<noteq> c" using assms by blast
  then have "takeWhile (\<lambda>x. x \<noteq> c) (lead @ c # rest) = lead"
    by (simp add: takeWhile_tail)
  then show ?thesis by (simp add: str_find_def)
qed

lemma str_rfind_last:
  assumes "c \<notin> set trail"
  shows "str_rfind (front @ c # trail) c = int (length front)"
proof -
  have "\<forall>x\<in>set (rev trail). x \<noteq> c" using assms by auto
  then have "takeWhile (\<lambda>x. x \<noteq> c) (rev trail @ c # rev front) = rev trail"
    by (simp add: takeWhile_tail)
  then show ?thesis by (simp add: str_rfind_def)
qed

lemma slice_middle:
  "slice (a @ b @ c) (int (length a)) (int (length a + length b)) = b"
  by (simp add: slice_def slice_bound_def)

lemma extract_json_object:
  assumes obj: "obj = CHR ''{'' # mid @ ''}''"
    and lead: "CHR ''{'' \<notin> set lead" and trail: "CHR ''}'' \<notin> set trail"
  shows "extract_json (lead @ obj @ trail) = obj"
proof -
  let ?l = "dropWhile is_space lead" and ?t = "rev (dropWhile is_space (rev trail))"
  have s: "strip (lead @ obj @ trail) = ?l @ obj @ ?t"
    using brace_not_space by (intro strip_around) (simp_all add: obj)
  have l: "CHR ''{'' \<notin> set ?l" using lead set_dropWhileD by fastforce
  have t: "CHR ''}'' \<notin> set ?t" using trail set_dropWhileD by fastforce
  have f: "str_find (?l @ obj @ ?t) CHR ''{'' = int (length ?l)"
    unfolding obj using str_find_first [OF l] by simp
  have "str_rfind ((?l @ CHR ''{'' # mid) @ CHR ''}'' # ?t) CHR ''}'' = int (length (?l @ CHR ''{'' # mid))"
    using t by (rule str_rfind_last)
  then have r: "str_rfind (?l @ obj @ ?t) CHR ''}'' + 1 = int (length ?l + length obj)"
    by (simp add: obj)
  have "slice (?l @ obj @ ?t) (int (length ?l)) (int (length ?l + length obj)) = obj"
    by (rule slice_middle)
  then show ?thesis
    unfolding extract_json_def s Let_def f r by (simp add: obj)
qed

lemma extract_json_no_brace:
  "CHR ''{'' \<notin> set (strip raw) \<Longrightarrow> extract_json raw = strip raw"
  by (simp add: extract_json_def str_find_def Let_def)

lemmas json_defs = loads_def skip_ws_def is_json_space_def backslash_def

lemmas extract_defs = extract_json_def strip_def is_space_def str_find_def str_rfind_def slice_def slice_bound_def

text \<open>
  C7, as amended. For a response made of a text without \<open>{\<close>, then a text from a \<open>{\<close> to
  a \<open>}\<close>, then a text without \<open>}\<close>, the parser cuts the middle text out, from the first
  \<open>{\<close> to the last \<open>}\<close>, and hands only that to \<open>json.loads\<close>: when the middle text is a
  well-formed JSON object the decision is read from it, whatever the commentary around
  it. A response without \<open>{\<close> is parsed whole.
\<close>

theorem clarification_parses_braces:
  assumes "commentary_around lead obj trail"
  shows "extract_json (lead @ obj @ trail) = obj
         \<and> (\<forall>env query grounding history d.
              invoke_clarification env query history
                (if grounding \<noteq> [] then grounding else ''No relevant information found.'')
                = Some (lead @ obj @ trail)
              \<and> json_loads env obj = Some (JObject d)
              \<longrightarrow> check_needs_clarification_with_llm env query grounding history =
                   \<lparr>needs_clarification = dict_get d ''needs_clarification'' (JBool False),
                    clarification_question = dict_get d ''clarification_question'' (JString []),
                    confidence = dict_get d ''confidence'' (JFloat (1 / 2)),
                    reason = dict_get d ''reason'' (JString [])\<rparr>)
         \<and> (\<forall>raw. CHR ''{'' \<notin> set (strip raw) \<longrightarrow> extract_json raw = strip raw)"
proof -
  from assms obtain mid where o: "obj = CHR ''{'' # mid @ ''}''"
    and l: "CHR ''{'' \<notin> set lead" and t: "CHR ''}'' \<notin> set trail"
    by (auto simp: commentary_around_def)
  have e: "extract_json (lead @ obj @ trail) = obj" using o l t by (rule extract_json_object)
  show ?thesis
    using e extract_json_no_brace
    by (auto simp: check_needs_clarification_with_llm_def)
qed

theorem clarification_parses_braces_witness:
  "commentary_around ''Sure. '' ''{\"needs_clarification\": false}'' '' Done.''
   \<and> extract_json ''Sure. {\"needs_clarification\": false} Done.'' = ''{\"needs_clarification\": false}''
   \<and> json_loads chatty ''{\"needs_clarification\": false}'' = Some (JObject [(''needs_clarification'', JBool False)])
   \<and> check_needs_clarification_with_llm chatty ''claim?'' [] [] =
        \<lparr>needs_clarification = JBool False, clarification_question = JString [],
         confidence = JFloat (1 / 2), reason = JString []\<rparr>"
proof -
  let ?lead = "''Sure. ''" and ?obj = "''{\"needs_clarification\": false}''" and ?trail = "'' Done.''"
  have c: "commentary_around ?lead ?obj ?trail"
    unfolding commentary_around_def
    by (intro conjI exI [of _ "''\"needs_clarification\": false''"]) simp_all
  have l: "json_loads chatty ?obj = Some (JObject [(''needs_clarification'', JBool False)])"
    by (simp add: chatty_def offline_def json_defs)
  have i: "invoke_clarification chatty ''claim?'' [] (if [] \<noteq> [] then [] else ''No relevant information found.'')
           = Some (?lead @ ?obj @ ?trail)"
    by (simp add: chatty_def offline_def)
  from clarification_parses_braces [OF c]
  have e: "extract_json (?lead @ ?obj @ ?trail) = ?obj"
    and k: "\<forall>env query grounding history d.
              invoke_clarification env query history
                (if grounding \<noteq> [] then grounding else ''No relevant information found.'')
                = Some (?lead @ ?obj @ ?trail)
              \<and> json_loads env ?obj = Some (JObject d)
              \<longrightarrow> check_needs_clarification_with_llm env query grounding history =
                   \<lparr>needs_clarification = dict_get d ''needs_clarification'' (JBool False),
                    clarification_question = dict_get d ''clarification_question'' (JString []),
                    confidence = dict_get d ''confidence'' (JFloat (1 / 2)),
                    reason = dict_get d ''reason'' (JString [])\<rparr>"
    by blast+
  from k i l have "check_needs_clarification_with_llm chatty ''claim?'' [] [] =
                   \<lparr>needs_clarification = dict_get [(''needs_clarification'', JBool False)] ''needs_clarification'' (JBool False),
                    clarification_question = dict_get [(''needs_clarification'', JBool False)] ''clarification_question'' (JString []),
                    confidence = dict_get [(''needs_clarification'', JBool False)] ''confidence'' (JFloat (1 / 2)),
                    reason = dict_get [(''needs_clarification'', JBool False)] ''reason'' (JString [])\<rparr>"
    by blast
  then have r: "check_needs_clarification_with_llm chatty ''claim?'' [] [] =
        \<lparr>needs_clarification = JBool False, clarification_question = JString [],
         confidence = JFloat (1 / 2), reason = JString []\<rparr>"
    by (simp add: dict_get_def)
  from e have e': "extract_json ''Sure. {\"needs_clarification\": false} Done.'' = ?obj" by simp
  show ?thesis using c e' l r by (intro conjI)
qed

theorem clarification_braces_in_commentary_counterexample:
  "extract_json ''See {1}: {\"needs_clarification\": false}'' = ''{1}: {\"needs_clarification\": false}''
   \<and> json_loads bracing ''{\"needs_clarification\": false}'' = Some (JObject [(''needs_clarification'', JBool False)])
   \<and> json_loads bracing (extract_json ''See {1}: {\"needs_clarification\": false}'') = None
   \<and> check_needs_clarification_with_llm bracing ''claim?'' [] [] = fallback_check []
   \<and> needs_clarification (check_needs_clarification_with_llm bracing ''claim?'' [] []) = JBool True"
proof -
  have e: "extract_json ''See {1}: {\"needs_clarification\": false}'' = ''{1}: {\"needs_clarification\": false}''"
    by (simp add: extract_defs)
  have l: "json_loads bracing ''{\"needs_clarification\": false}'' = Some (JObject [(''needs_clarification'', JBool False)])"
    by (simp add: bracing_def offline_def json_defs)
  have n: "json_loads bracing ''{1}: {\"needs_clarification\": false}'' = None"
    by (simp add: bracing_def offline_def json_defs)
  have c: "check_needs_clarification_with_llm bracing ''claim?'' [] [] = fallback_check []"
    unfolding check_needs_clarification_with_llm_def
    using n e by (simp add: bracing_def offline_def)
  show ?thesis using e l n c by (simp add: fallback_check_def)
qed

section \<open>Properties of the chat turn\<close>

lemma retrieve_history [simp]:
  "retrieve env (st\<lparr>chat_history := h\<rparr>) query k = retrieve env st query k"
  by (simp add: retrieve_def cong: option.case_cong)

lemma call_ask_history [simp]:
  "call_ask env (st\<lparr>chat_history := h\<rparr>) query k = call_ask env st query k"
  by (simp add: call_ask_def cong: sum.case_cong)

lemma slice_prefix: "slice s 0 (int n) = take n s"
  by (simp add: slice_def slice_bound_def min_def)

lemma generate_response_fallback:
  "invoke_response env query history grounding = None \<Longrightarrow>
   generate_response_with_llm env query grounding history =
     (if grounding \<noteq> [] then take 500 grounding else apology_text)"
  using slice_prefix [of grounding 500]
  by (simp add: generate_response_with_llm_def apology_text_def)

lemma check_unavailable:
  "llm_unavailable env \<Longrightarrow>
   check_needs_clarification_with_llm env query grounding history = fallback_check grounding"
  by (simp add: llm_unavailable_def check_needs_clarification_with_llm_def)

lemma chat_unavailable:
  assumes down: "llm_unavailable env"
    and msg: "mask_aadhaar (strip (cr_message req)) \<noteq> []"
    and ask: "call_ask env st (mask_aadhaar (strip (cr_message req))) (cr_k req) = Inr ask_resp"
  shows "\<exists>st' response. chat env st req = (st', Inr response)
           \<and> reply response =
               (if length (ar_answer ask_resp) < 50 then clarification_text
                else mask_aadhaar (take 500 (ar_answer ask_resp)))"
proof (cases "length (ar_answer ask_resp) < 50")
  case True
  then show ?thesis
    using msg ask
    by (simp add: chat_def Let_def check_unavailable [OF down] fallback_check_def
        store_and_respond_def ChatResponse_def clarification_text_def)
next
  case False
  then have ne: "ar_answer ask_resp \<noteq> []" by auto
  have g: "generate_response_with_llm env q (ar_answer ask_resp) h = take 500 (ar_answer ask_resp)" for q h
    using down ne by (simp add: generate_response_fallback llm_unavailable_def)
  show ?thesis
    using msg ask False ne
    by (simp add: chat_def Let_def check_unavailable [OF down] fallback_check_def g
        store_and_respond_def ChatResponse_def)
qed

lemmas mask_defs = mask_aadhaar_def sub_from.simps at_match_def is_digit_def is_word_def

text \<open>
  Beyond ASCII: the letter \<open>U+00E9\<close> and the ordinal indicator \<open>U+00BA\<close> are word characters,
  so twelve digits behind them are no match; the multiplication sign \<open>U+00D7\<close> is none, so
  twelve digits behind it are one. The no-break space and the next-line control are
  stripped, and a message made of them is an empty message.
\<close>

lemma mask_aadhaar_beyond_ascii:
  "mask_aadhaar (CHR 0xE9 # ''123412345678'') = CHR 0xE9 # ''123412345678''"
  "mask_aadhaar (CHR ''N'' # CHR 0xBA # ''123412345678'') = CHR ''N'' # CHR 0xBA # ''123412345678''"
  "mask_aadhaar (CHR 0xD7 # ''123412345678'') = CHR 0xD7 # ''XXXX-XXXX-5678''"
  by (simp_all add: mask_defs sub_from_miss sub_from_hit)

lemma bounded_run_beyond_ascii:
  "\<not> bounded_run [CHR 0xE9] ''123412345678'' []"
  "bounded_run [CHR 0xD7] ''123412345678'' []"
  by (simp_all add: bounded_run_def is_word_def is_digit_def)

lemma strip_beyond_ascii:
  "strip [CHR 0xA0] = []"
  "strip (CHR 0x85 # ''status?'' @ [CHR 0xA0]) = ''status?''"
  by (simp_all add: strip_def is_space_def)

lemma chat_no_break_space:
  "chat env st \<lparr>cr_message = [CHR 0xA0], cr_session_id = session, cr_k = k\<rparr> =
     (st, Inl (HTTPException 400 (Detail ''Empty message'')))"
  by (simp add: chat_def strip_beyond_ascii mask_aadhaar_def)

lemma policy_question_message: "mask_aadhaar (strip (cr_message policy_question)) = ''What does policy 101 cover?''"
  by (simp add: policy_question_def strip_def is_space_def mask_defs)

lemma policy_question_retrieval:
  "encode env = plane_encode \<Longrightarrow> search env = exact_search \<Longrightarrow> ask_latency_ms env = 0 \<Longrightarrow>
   linalg_norm env = exact_norm \<Longrightarrow> true_divide env = exact_divide \<Longrightarrow>
   np_dot env = exact_dot \<Longrightarrow> np_mean env = exact_mean \<Longrightarrow>
   call_ask env (build_index env faq initial_state) ''What does policy 101 cover?'' 1 =
     Inr \<lparr>ar_answer = ''Policy 101 covers water damage up to 50,000 for every insured home.'',
          ar_citations = [(''faq.txt'', ''Policy 101 covers water damage up to 50,000'')],
          ar_retrieval = \<lparr>ri_k = 1, ri_latency_ms = 0, ri_grounding_score = Some (Finite 1)\<rparr>\<rparr>"
  by (simp add: call_ask_def QueryRequest_def faq_def ex_defs)


text \<open>
  C8. When the response call fails, \<open>generate_response_with_llm\<close> returns the first 500
  characters of the grounding text, or the fixed apology when the grounding text is
  empty. With the language model out of reach a chat turn whose message is not empty and
  whose retrieval returns still returns a response: the fixed question, or the masked
  first 500 characters of the retrieved text.
\<close>

theorem response_fallback:
  "(invoke_response env query history grounding = None \<longrightarrow>
      generate_response_with_llm env query grounding history =
        (if grounding \<noteq> [] then take 500 grounding else apology_text))
   \<and> (llm_unavailable env \<and> mask_aadhaar (strip (cr_message req)) \<noteq> [] \<longrightarrow>
        (\<forall>ask_resp. call_ask env st (mask_aadhaar (strip (cr_message req))) (cr_k req) = Inr ask_resp \<longrightarrow>
           (\<exists>st' response. chat env st req = (st', Inr response)
              \<and> reply response =
                  (if length (ar_answer ask_resp) < 50 then clarification_text
                   else mask_aadhaar (take 500 (ar_answer ask_resp))))))"
  using generate_response_fallback chat_unavailable by blast

theorem response_fallback_witness:
  "invoke_response offline ''claim?'' [] ''Policy 101'' = None
   \<and> generate_response_with_llm offline ''claim?'' ''Policy 101'' [] = ''Policy 101''
   \<and> invoke_response offline ''claim?'' [] [] = None
   \<and> generate_response_with_llm offline ''claim?'' [] [] = apology_text
   \<and> llm_unavailable offline
   \<and> mask_aadhaar (strip (cr_message policy_question)) = ''What does policy 101 cover?''
   \<and> (\<exists>st' response. chat offline (build_index offline faq initial_state) policy_question = (st', Inr response)
          \<and> reply response = ''Policy 101 covers water damage up to 50,000 for every insured home.'')"
proof -
  let ?st = "build_index offline faq initial_state"
  let ?answer = "''Policy 101 covers water damage up to 50,000 for every insured home.''"
  have n: "invoke_response offline ''claim?'' [] ''Policy 101'' = None"
          "invoke_response offline ''claim?'' [] [] = None"
    by (simp_all add: offline_def)
  have d: "llm_unavailable offline" by (simp add: llm_unavailable_def offline_def)
  have m: "mask_aadhaar (strip (cr_message policy_question)) = ''What does policy 101 cover?''" by (rule policy_question_message)
  have ne: "mask_aadhaar (strip (cr_message policy_question)) \<noteq> []" unfolding m by simp
  have a: "call_ask offline ?st (mask_aadhaar (strip (cr_message policy_question))) (cr_k policy_question) =
     Inr \<lparr>ar_answer = ?answer,
          ar_citations = [(''faq.txt'', ''Policy 101 covers water damage up to 50,000'')],
          ar_retrieval = \<lparr>ri_k = 1, ri_latency_ms = 0, ri_grounding_score = Some (Finite 1)\<rparr>\<rparr>"
    unfolding m using policy_question_retrieval [of offline] by (simp add: offline_def policy_question_def)
  note t = response_fallback [of offline _ _ _ policy_question ?st]
  from t [of "''claim?''" "[]" "''Policy 101''"] n(1)
  have g1: "generate_response_with_llm offline ''claim?'' ''Policy 101'' [] = ''Policy 101''" by simp
  from t [of "''claim?''" "[]" "[]"] n(2)
  have g2: "generate_response_with_llm offline ''claim?'' [] [] = apology_text" by simp
  from t [of "''claim?''" "[]" "[]"] d ne a
  obtain st' response where c: "chat offline ?st policy_question = (st', Inr response)"
    and r: "reply response = (if length ?answer < 50 then clarification_text
                              else mask_aadhaar (take 500 ?answer))"
    by (metis ask_response.select_convs(1))
  have "mask_aadhaar (take 500 ?answer) = ?answer" by (simp add: mask_defs)
  then have r': "reply response = ?answer" using r by simp
  have "\<exists>st' response. chat offline ?st policy_question = (st', Inr response) \<and> reply response = ?answer"
    using c r' by blast
  then show ?thesis using n g1 g2 d m by (intro conjI)
qed

text \<open>
  C10. \<open>ChatRequest\<close> accepts a \<open>k\<close> outside 1..6. \<open>QueryRequest\<close> refuses it, inside
  \<open>call_ask\<close>: a chat turn with such a \<open>k\<close> and a message that is not empty ends in the
  error 502, after the user turn is stored, where an empty message ends in the error 400.
\<close>

theorem chat_k_not_validated:
  assumes k: "k < 1 \<or> 6 < k"
  shows "ChatRequest message session k = Inr \<lparr>cr_message = message, cr_session_id = session, cr_k = k\<rparr>
         \<and> QueryRequest query k = Inl ValidationError
         \<and> (mask_aadhaar (strip message) \<noteq> [] \<longrightarrow>
              chat env st \<lparr>cr_message = message, cr_session_id = session, cr_k = k\<rparr> =
                (st\<lparr>chat_history := add_turn (now_user env) session ''user''
                       (mask_aadhaar (strip message)) (chat_history st)\<rparr>,
                 Inl (HTTPException 502 (AskError ValidationError))))
         \<and> (mask_aadhaar (strip message) = [] \<longrightarrow>
              chat env st \<lparr>cr_message = message, cr_session_id = session, cr_k = k\<rparr> =
                (st, Inl (HTTPException 400 (Detail ''Empty message''))))"
proof -
  have q: "QueryRequest query' k = Inl ValidationError" for query'
    using k by (auto simp: QueryRequest_def)
  have a: "call_ask env st' query' k = Inl (HTTPException 502 (AskError ValidationError))" for st' query'
    by (simp add: call_ask_def q)
  show ?thesis
    by (simp add: ChatRequest_def q chat_def Let_def a)
qed

theorem chat_k_not_validated_witness:
  "((0::int) < 1 \<or> (6::int) < 0)
   \<and> ChatRequest ''status?'' ''s1'' 0 = Inr \<lparr>cr_message = ''status?'', cr_session_id = ''s1'', cr_k = 0\<rparr>
   \<and> QueryRequest ''status?'' 0 = Inl ValidationError
   \<and> chat offline (build_index offline faq initial_state)
         \<lparr>cr_message = ''status?'', cr_session_id = ''s1'', cr_k = 0\<rparr> =
       ((build_index offline faq initial_state)
          \<lparr>chat_history := [\<lparr>row_session_id = ''s1'', row_role = ''user'', row_text = ''status?'', row_ts = 1\<rparr>]\<rparr>,
        Inl (HTTPException 502 (AskError ValidationError)))
   \<and> chat offline (build_index offline faq initial_state)
         \<lparr>cr_message = ''  '', cr_session_id = ''s1'', cr_k = 0\<rparr> =
       (build_index offline faq initial_state, Inl (HTTPException 400 (Detail ''Empty message'')))"
proof -
  have k: "(0::int) < 1 \<or> (6::int) < 0" by simp
  have m: "mask_aadhaar (strip ''status?'') = ''status?''" "mask_aadhaar (strip ''  '') = []"
    by (simp_all add: strip_def is_space_def mask_defs)
  have h: "chat_history (build_index offline faq initial_state) = []" "now_user offline = 1"
    by (simp_all add: build_index_def faq_def initial_state_def offline_def)
  note t = chat_k_not_validated [OF k, of _ "''s1''" "''status?''" offline "build_index offline faq initial_state"]
  from t [of "''status?''"] m(1) h
  have a: "ChatRequest ''status?'' ''s1'' 0 = Inr \<lparr>cr_message = ''status?'', cr_session_id = ''s1'', cr_k = 0\<rparr>"
    "QueryRequest ''status?'' 0 = Inl ValidationError"
    "chat offline (build_index offline faq initial_state)
         \<lparr>cr_message = ''status?'', cr_session_id = ''s1'', cr_k = 0\<rparr> =
       ((build_index offline faq initial_state)
          \<lparr>chat_history := [\<lparr>row_session_id = ''s1'', row_role = ''user'', row_text = ''status?'', row_ts = 1\<rparr>]\<rparr>,
        Inl (HTTPException 502 (AskError ValidationError)))"
    by (simp_all add: add_turn_def)
  from t [of "''  ''"] m(2)
  have b: "chat offline (build_index offline faq initial_state)
         \<lparr>cr_message = ''  '', cr_session_id = ''s1'', cr_k = 0\<rparr> =
       (build_index offline faq initial_state, Inl (HTTPException 400 (Detail ''Empty message'')))"
    by simp
  show ?thesis using k a b by (intro conjI)
qed

text \<open>
  C5, at a failing input. The claim: masking is applied to the user message and to the
  assistant reply, on the clarification branch as on the answer branch, before the text
  is stored or returned. Here the clarification call answers with a question that quotes
  a twelve-digit number: the chat turn stores and returns the question as it is, where
  \<open>mask_aadhaar\<close> would have replaced the number.
\<close>

theorem chat_clarification_reply_not_masked:
  "snd (chat leaky (build_index leaky faq initial_state) policy_question) =
     Inr \<lparr>reply = ''Is 123412345678 your Aadhaar?'',
          citations = [(''faq.txt'', ''Policy 101 covers water damage up to 50,000'')],
          retrieval = \<lparr>ri_k = 1, ri_latency_ms = 0, ri_grounding_score = None\<rparr>,
          session_id = ''s1'', used_clarification = True, confidence_score = Some (1 / 2)\<rparr>
   \<and> map (\<lambda>r. (row_role r, row_text r)) (chat_history (fst (chat leaky (build_index leaky faq initial_state) policy_question))) =
       [(''user'', ''What does policy 101 cover?''), (''assistant'', ''Is 123412345678 your Aadhaar?'')]
   \<and> mask_aadhaar ''Is 123412345678 your Aadhaar?'' = ''Is XXXX-XXXX-5678 your Aadhaar?''"
proof -
  let ?st = "build_index leaky faq initial_state"
  have e: "encode leaky = plane_encode" "search leaky = exact_search" "ask_latency_ms leaky = 0"
    "linalg_norm leaky = exact_norm" "true_divide leaky = exact_divide"
    "np_dot leaky = exact_dot" "np_mean leaky = exact_mean"
    by (simp_all add: leaky_def offline_def)
  have a: "call_ask leaky ?st ''What does policy 101 cover?'' 1 =
     Inr \<lparr>ar_answer = ''Policy 101 covers water damage up to 50,000 for every insured home.'',
          ar_citations = [(''faq.txt'', ''Policy 101 covers water damage up to 50,000'')],
          ar_retrieval = \<lparr>ri_k = 1, ri_latency_ms = 0, ri_grounding_score = Some (Finite 1)\<rparr>\<rparr>"
    using policy_question_retrieval [OF e] .
  have x: "extract_json (''{\"needs_clarification\": true, '' @
           ''\"clarification_question\": \"Is 123412345678 your Aadhaar?\"}'') =
           ''{\"needs_clarification\": true, \"clarification_question\": \"Is 123412345678 your Aadhaar?\"}''"
    by (simp add: extract_defs)
  have l: "loads ''{\"needs_clarification\": true, \"clarification_question\": \"Is 123412345678 your Aadhaar?\"}'' =
           Some (JObject [(''needs_clarification'', JBool True),
                          (''clarification_question'', JString ''Is 123412345678 your Aadhaar?'')])"
    by (simp add: json_defs)
  have c: "check_needs_clarification_with_llm leaky q g h =
           \<lparr>needs_clarification = JBool True,
            clarification_question = JString ''Is 123412345678 your Aadhaar?'',
            confidence = JFloat (1 / 2), reason = JString []\<rparr>" for q g h
    unfolding check_needs_clarification_with_llm_def
    using x l by (simp add: leaky_def offline_def dict_get_def)
  have h: "chat_history ?st = []" "now_user leaky = 1" "now_assistant leaky = 2" "chat_latency_ms leaky = 0"
    by (simp_all add: build_index_def faq_def initial_state_def leaky_def offline_def)
  have k: "cr_k policy_question = 1" "cr_session_id policy_question = ''s1''" by (simp_all add: policy_question_def)
  have ch: "chat leaky ?st policy_question =
     (?st\<lparr>chat_history :=
         [\<lparr>row_session_id = ''s1'', row_role = ''user'', row_text = ''What does policy 101 cover?'', row_ts = 1\<rparr>,
          \<lparr>row_session_id = ''s1'', row_role = ''assistant'', row_text = ''Is 123412345678 your Aadhaar?'', row_ts = 2\<rparr>]\<rparr>,
      Inr \<lparr>reply = ''Is 123412345678 your Aadhaar?'',
          citations = [(''faq.txt'', ''Policy 101 covers water damage up to 50,000'')],
          retrieval = \<lparr>ri_k = 1, ri_latency_ms = 0, ri_grounding_score = None\<rparr>,
          session_id = ''s1'', used_clarification = True, confidence_score = Some (1 / 2)\<rparr>)"
    unfolding chat_def Let_def policy_question_message k call_ask_history a c
    by (simp add: store_and_respond_def ChatResponse_def add_turn_def h)
  have m: "mask_aadhaar ''Is 123412345678 your Aadhaar?'' = ''Is XXXX-XXXX-5678 your Aadhaar?''"
    by (simp add: mask_defs)
  show ?thesis unfolding ch using m by simp
qed

text \<open>
  C6, at a failing input. The claim: the context lists the last five turns oldest first.
  For a session with a user turn and then an assistant turn, \<open>get_recent\<close> returns the
  later turn first and the context lists the turns in that order, latest first.
\<close>

theorem build_conversation_context_latest_first:
  "get_recent (add_turn 2 ''s1'' ''assistant'' ''b'' (add_turn 1 ''s1'' ''user'' ''a'' [])) ''s1'' 5 =
     [(''assistant'', ''b''), (''user'', ''a'')]
   \<and> build_conversation_context
         (add_turn 2 ''s1'' ''assistant'' ''b'' (add_turn 1 ''s1'' ''user'' ''a'' [])) ''s1'' 5 =
       ''Previous conversation:\<newline>Assistant: b\<newline>User: a\<newline>\<newline>''"
  by (simp add: build_conversation_context_def get_recent_def add_turn_def slice_from_def
      slice_bound_def upper_char_def lower_char_def)

end
